theory Spec2Isabelle
  imports Main
begin

section \<open>Common vocabulary of the two job packages\<close>

text \<open>
  The repository holds two generations of the job code: package \<open>jobs\<close> under
  \<open>api/jobs\<close> (status updates guarded, clock passed in, database records) and the
  earlier package \<open>jobs\<close> under \<open>jobs\<close> (status updates unguarded, its own monitor
  loop, the REST handlers).  Both are embedded here, the first with the prefix
  \<open>api_\<close> on the names that the two share.

  A Go \<open>error\<close> is represented by its message, \<open>nil\<close> by \<open>None\<close>.  A
  \<open>time.Time\<close> is an offset from Go's zero instant, so that \<open>IsZero\<close> is the
  comparison with \<open>0\<close>.  Values that come from outside the program (the clock, the
  answers of the batch service, of the log service and of the JSON encoder) are
  parameters of the functions that read them.
\<close>

type_synonym time = int

definition IsZero :: "time \<Rightarrow> bool" where
  "IsZero t = (t = 0)"

text \<open>\<open>time.Time{}\<close>\<close>

definition zero_time :: time where
  "zero_time = 0"

text \<open>The OGC status codes, the constants of \<open>jobs.go\<close>.\<close>

definition ACCEPTED :: string where "ACCEPTED = ''accepted''"
definition RUNNING :: string where "RUNNING = ''running''"
definition SUCCESSFUL :: string where "SUCCESSFUL = ''successful''"
definition FAILED :: string where "FAILED = ''failed''"
definition DISMISSED :: string where "DISMISSED = ''dismissed''"

text \<open>A call returns, panics (a nil function value called, a nil error read, an index
  out of range) or does not come back.\<close>

datatype 'a outcome = Returns 'a | Panics | Blocks

text \<open>What follows a call runs only when the call has returned.\<close>

fun and_then :: "'a outcome \<Rightarrow> ('a \<Rightarrow> 'b outcome) \<Rightarrow> 'b outcome" where
  "and_then (Returns x) f = f x"
| "and_then Panics f = Panics"
| "and_then Blocks f = Blocks"

section \<open>Package \<open>api/jobs\<close>: the batch job\<close>

text \<open>
  The context of a job and its cancel function are set together by \<open>Create\<close>; a
  job restored from a snapshot has neither.
\<close>

datatype ctx_state = NoContext | Live | Cancelled

record api_AWSBatchJob =
  api_ctx :: ctx_state
  api_UUID :: string
  api_AWSBatchID :: string
  api_ProcessName :: string
  api_Image :: string
  api_Cmd :: "string list"
  api_UpdateTime :: time
  api_Status :: string
  apiLogs :: "string list"
  containerLogs :: "string list"
  api_JobDef :: string
  api_JobQueue :: string
  api_JobName :: string
  api_EnvVars :: "string \<rightharpoonup> string"
  logStreamName :: string
  ProcessVersion :: string

text \<open>
  What a job does to the outside is recorded as the sequence of calls it issues: to the
  batch controller, to the log service, to the database behind \<open>j.DB\<close>, to its wait
  group and to \<open>DoneChan\<close>.
\<close>

datatype api_call =
    Call_NewAWSBatchController string
  | Call_JobKill string
  | Call_JobMonitor string
  | Call_NewSession
  | Call_GetLogEvents string
  | Call_ctxCancel
  | Call_wg_Wait
  | Call_updateJobRecord string string time
  | Call_upsertLogs string string "string list" "string list"
  | Call_DoneChan_send string

text \<open>
  The answers of the outside: the error of \<open>NewAWSBatchController\<close> (by the name of
  the region variable it is given), of \<open>JobKill\<close> and of \<open>NewSession\<close>, the result of
  \<open>JobMonitor\<close> (status and log stream name) and of \<open>GetLogEvents\<close> (the messages
  of the events), the reading of the clock, and the text that \<open>fmt.Errorf\<close> makes of
  a format string that is given no operands (the string itself when it has no percent
  sign, as in the constant messages below).
\<close>

record api_env =
  env_NewAWSBatchController :: "string \<Rightarrow> string option"
  env_JobKill :: "string \<Rightarrow> string option"
  env_JobMonitor :: "string \<Rightarrow> string + string \<times> string"
  env_NewSession :: "string option"
  env_GetLogEvents :: "string \<Rightarrow> string + string list"
  env_Now :: time
  env_Errorf :: "string \<Rightarrow> string"

type_synonym api_state = "api_AWSBatchJob \<times> api_call list"

definition api_JobID :: "api_AWSBatchJob \<Rightarrow> string" where
  "api_JobID j = api_UUID j"

definition api_ProcessID :: "api_AWSBatchJob \<Rightarrow> string" where
  "api_ProcessID j = api_ProcessName j"

definition api_CurrentStatus :: "api_AWSBatchJob \<Rightarrow> string" where
  "api_CurrentStatus j = api_Status j"

definition api_LastUpdate :: "api_AWSBatchJob \<Rightarrow> time" where
  "api_LastUpdate j = api_UpdateTime j"

definition api_Messages :: "api_AWSBatchJob \<Rightarrow> string list" where
  "api_Messages j = apiLogs j"

definition api_NewMessage :: "string \<Rightarrow> api_AWSBatchJob \<Rightarrow> api_AWSBatchJob" where
  "api_NewMessage m j = j\<lparr>apiLogs := apiLogs j @ [m]\<rparr>"

text \<open>
  \<open>NewStatusUpdate(status, updateTime)\<close>; \<open>now\<close> is what \<open>time.Now()\<close> returns
  when it is read.
\<close>

definition api_NewStatusUpdate :: "time \<Rightarrow> string \<Rightarrow> time \<Rightarrow> api_state \<Rightarrow> api_state" where
  "api_NewStatusUpdate now status updateTime s =
     (case s of (j, calls) \<Rightarrow>
        if api_Status j = SUCCESSFUL \<or> api_Status j = DISMISSED \<or> api_Status j = FAILED
        then (j, calls)
        else
          let j1 = j\<lparr>api_Status := status\<rparr>;
              j2 = (if IsZero updateTime then j1\<lparr>api_UpdateTime := now\<rparr>
                    else j1\<lparr>api_UpdateTime := updateTime\<rparr>)
          in (j2, calls @ [Call_updateJobRecord (api_UUID j2) status (api_UpdateTime j2)]))"

definition getLogStreamName :: "api_env \<Rightarrow> api_state \<Rightarrow> string option \<times> api_state" where
  "getLogStreamName env s =
     (case s of (j, calls) \<Rightarrow>
        let calls1 = calls @ [Call_NewAWSBatchController ''AWS_DEFAULT_REGION'']
        in (case env_NewAWSBatchController env ''AWS_DEFAULT_REGION'' of
              Some e \<Rightarrow> (Some e, (j, calls1))
            | None \<Rightarrow>
                (let calls2 = calls1 @ [Call_JobMonitor (api_AWSBatchID j)]
                 in (case env_JobMonitor env (api_AWSBatchID j) of
                       Inl e \<Rightarrow> (Some e, (j, calls2))
                     | Inr (st, name) \<Rightarrow> (None, (j\<lparr>logStreamName := name\<rparr>, calls2))))))"

definition fetchCloudWatchLogs :: "api_env \<Rightarrow> api_state \<Rightarrow> string option \<times> api_state" where
  "fetchCloudWatchLogs env s =
     (case (if logStreamName (fst s) = [] then getLogStreamName env s else (None, s)) of
        (Some e, s1) \<Rightarrow> (Some ''could not get log stream name'', s1)
      | (None, (j1, calls1)) \<Rightarrow>
          (if logStreamName j1 = []
           then (Some ''logStreamName is empty. If you just ran your job, retry in few seconds'',
                 (j1, calls1))
           else
             (let calls2 = calls1 @ [Call_NewSession]
              in (case env_NewSession env of
                    Some e \<Rightarrow> (Some (env_Errorf env (''Error creating session: '' @ e)), (j1, calls2))
                  | None \<Rightarrow>
                      (let calls3 = calls2 @ [Call_GetLogEvents (logStreamName j1)]
                       in (case env_GetLogEvents env (logStreamName j1) of
                             Inl e \<Rightarrow>
                               (if e = ''ResourceNotFoundException: The specified log stream does not exist.''
                                then (None, (j1, calls3))
                                else (Some e, (j1, calls3)))
                           | Inr msgs \<Rightarrow> (None, (j1\<lparr>containerLogs := msgs\<rparr>, calls3))))))))"

text \<open>
  \<open>Close\<close>: cancel the context, pull the logs, wait for the other routines, flush the
  logs, hand the job to \<open>DoneChan\<close>.  The wait and the send are taken to complete.
\<close>

definition api_Close :: "api_env \<Rightarrow> api_state \<Rightarrow> api_state outcome" where
  "api_Close env s =
     (case s of (j, calls) \<Rightarrow>
        if api_ctx j = NoContext then Panics
        else
          case fetchCloudWatchLogs env (j\<lparr>api_ctx := Cancelled\<rparr>, calls @ [Call_ctxCancel]) of
            (r, (j1, calls1)) \<Rightarrow>
              let j2 = (case r of
                          Some e \<Rightarrow> api_NewMessage (''Could not fetch cloud watch logs. Error: '' @ e) j1
                        | None \<Rightarrow> j1)
              in Returns (j2, calls1 @ [Call_wg_Wait,
                                        Call_upsertLogs (api_UUID j2) (api_ProcessID j2)
                                          (apiLogs j2) (containerLogs j2),
                                        Call_DoneChan_send (api_UUID j2)]))"

definition api_Kill :: "api_env \<Rightarrow> api_state \<Rightarrow> (string option \<times> api_state) outcome" where
  "api_Kill env s =
     (case s of (j0, calls) \<Rightarrow>
        let j = api_NewMessage ''Received dismiss signal'' j0
        in if api_CurrentStatus j = SUCCESSFUL \<or> api_CurrentStatus j = FAILED
              \<or> api_CurrentStatus j = DISMISSED
           then Returns (Some ''can't call delete on an already completed, failed, or dismissed job'',
                         (j, calls))
           else
             (let calls1 = calls @ [Call_NewAWSBatchController ''AWS_REGION'']
              in (case env_NewAWSBatchController env ''AWS_REGION'' of
                    Some e \<Rightarrow>
                      Returns (Some e,
                        (api_NewMessage (''Could not send kill signal to AWS Batch API. Error: '' @ e) j,
                         calls1))
                  | None \<Rightarrow>
                      (let calls2 = calls1 @ [Call_JobKill (api_AWSBatchID j)]
                       in (case env_JobKill env (api_AWSBatchID j) of
                             Some e \<Rightarrow>
                               Returns (Some e,
                                 (api_NewMessage
                                    (''Could not send kill signal to AWS Batch API. Error: '' @ e) j,
                                  calls2))
                           | None \<Rightarrow>
                               and_then
                                 (api_Close env
                                    (api_NewStatusUpdate (env_Now env) DISMISSED zero_time (j, calls2)))
                                 (\<lambda>s'. Returns (None, s')))))))"

text \<open>
  \<open>Kill\<close> as the method of the interface: from the job to the error and the job, the
  calls left aside.
\<close>

definition api_Kill_method ::
  "api_env \<Rightarrow> api_AWSBatchJob \<Rightarrow> (string option \<times> api_AWSBatchJob) outcome" where
  "api_Kill_method env j = and_then (api_Kill env (j, [])) (\<lambda>(err, s). Returns (err, fst s))"

section \<open>Package \<open>api/jobs\<close>: the registry of active jobs\<close>

text \<open>
  \<open>ActiveJobs.Jobs\<close> maps a job id to a pointer to a job.  \<open>Add\<close> files a job
  under its own id, which no method changes, so two keys never lead to one job and the
  registry is kept as a map from ids to job states.  \<open>Job\<close> is an interface: its
  methods \<open>JobID\<close>, \<open>CurrentStatus\<close> and \<open>Kill\<close> are parameters here, and
  \<open>api_Kill\<close> above is the one implementation in these sources.
\<close>

type_synonym 'j ActiveJobs = "string \<rightharpoonup> 'j"

definition ActiveJobs_Add :: "('j \<Rightarrow> string) \<Rightarrow> 'j \<Rightarrow> 'j ActiveJobs \<Rightarrow> 'j ActiveJobs" where
  "ActiveJobs_Add jobID j ac = ac(jobID j \<mapsto> j)"

definition ActiveJobs_Remove :: "('j \<Rightarrow> string) \<Rightarrow> 'j \<Rightarrow> 'j ActiveJobs \<Rightarrow> 'j ActiveJobs" where
  "ActiveJobs_Remove jobID j ac = ac(jobID j := None)"

text \<open>
  The loop of \<open>KillAll\<close> over the keys in the order \<open>range\<close> yields them, which the
  language leaves open.  Next to the error and the registry, the result lists the keys
  on which \<open>Kill\<close> was invoked, in the order of the invocations.  A key that is not in
  the map is not visited by \<open>range\<close>.
\<close>

fun KillAll_range ::
  "('j \<Rightarrow> string) \<Rightarrow> ('j \<Rightarrow> (string option \<times> 'j) outcome) \<Rightarrow> string list \<Rightarrow> 'j ActiveJobs
     \<Rightarrow> (string option \<times> 'j ActiveJobs \<times> string list) outcome" where
  "KillAll_range currentStatus kill [] ac = Returns (None, ac, [])"
| "KillAll_range currentStatus kill (k # ks) ac =
     (case ac k of
        None \<Rightarrow> KillAll_range currentStatus kill ks ac
      | Some j \<Rightarrow>
          if currentStatus j = ACCEPTED \<or> currentStatus j = RUNNING
          then and_then (kill j)
                 (\<lambda>(err, j').
                    case err of
                      Some e \<Rightarrow> Returns (Some e, ac(k \<mapsto> j'), [k])
                    | None \<Rightarrow>
                        and_then (KillAll_range currentStatus kill ks (ac(k \<mapsto> j')))
                          (\<lambda>(r, ac', killed). Returns (r, ac', k # killed)))
          else KillAll_range currentStatus kill ks ac)"

definition KillAll ::
  "('j \<Rightarrow> string) \<Rightarrow> ('j \<Rightarrow> (string option \<times> 'j) outcome) \<Rightarrow> string list \<Rightarrow> 'j ActiveJobs
     \<Rightarrow> (string option \<times> 'j ActiveJobs \<times> string list) outcome" where
  "KillAll currentStatus kill order ac = KillAll_range currentStatus kill order ac"

text \<open>A key of the registry whose job is in status \<open>accepted\<close> or \<open>running\<close>.\<close>

definition registered_active :: "('j \<Rightarrow> string) \<Rightarrow> 'j ActiveJobs \<Rightarrow> string \<Rightarrow> bool" where
  "registered_active currentStatus ac k =
     (case ac k of
        None \<Rightarrow> False
      | Some j \<Rightarrow> currentStatus j = ACCEPTED \<or> currentStatus j = RUNNING)"

section \<open>Package \<open>jobs\<close>: the batch job and its monitor\<close>

text \<open>
  \<open>Ctx\<close> is \<open>NoContext\<close> while the field is nil; \<open>CtxCancel\<close> and
  \<open>BatchContext\<close> say whether the field is set; \<open>Cmd\<close> is \<open>None\<close> while the slice
  is nil.  \<open>Links\<close> is never written by these sources and is left out.
\<close>

record AWSBatchJob =
  Ctx :: ctx_state
  CtxCancel :: bool
  UUID :: string
  AWSBatchID :: string
  ProcessName :: string
  ImgTag :: string
  Cmd :: "string list option"
  UpdateTime :: time
  Status :: string
  APILogs :: "string list"
  ContainerLogs :: "string list"
  JobDef :: string
  JobQueue :: string
  JobName :: string
  EnvVars :: "string \<rightharpoonup> string"
  BatchContext :: bool

text \<open>One answer of \<open>JobMonitor\<close>: an error, or a status and a log stream.\<close>

datatype poll = Poll_err string | Poll_ok string string

text \<open>
  The answers of the batch service to one job: the error of
  \<open>NewAWSBatchController\<close>, the result of \<open>JobCreate\<close>, the error of \<open>JobKill\<close>,
  the successive answers of \<open>JobMonitor\<close> each with the reading of the clock at that
  tick, and the reading of the clock outside the loop.
\<close>

record batch_env =
  ext_NewAWSBatchController :: "string option"
  ext_JobCreate :: "string + string"
  ext_JobKill :: "string option"
  ext_JobMonitor :: "(poll \<times> time) list"
  ext_Now :: time

definition JobID :: "AWSBatchJob \<Rightarrow> string" where
  "JobID j = UUID j"

definition ProcessID :: "AWSBatchJob \<Rightarrow> string" where
  "ProcessID j = ProcessName j"

definition NewMessage :: "string \<Rightarrow> AWSBatchJob \<Rightarrow> AWSBatchJob" where
  "NewMessage m j = j\<lparr>APILogs := APILogs j @ [m]\<rparr>"

definition LastUpdate :: "AWSBatchJob \<Rightarrow> time" where
  "LastUpdate j = UpdateTime j"

definition NewStatusUpdate :: "time \<Rightarrow> string \<Rightarrow> AWSBatchJob \<Rightarrow> AWSBatchJob" where
  "NewStatusUpdate now s j = j\<lparr>Status := s, UpdateTime := now\<rparr>"

definition CurrentStatus :: "AWSBatchJob \<Rightarrow> string" where
  "CurrentStatus j = Status j"

text \<open>The call \<open>j.CtxCancel()\<close>.\<close>

definition call_CtxCancel :: "AWSBatchJob \<Rightarrow> AWSBatchJob outcome" where
  "call_CtxCancel j = (if CtxCancel j then Returns (j\<lparr>Ctx := Cancelled\<rparr>) else Panics)"

definition HandleError :: "time \<Rightarrow> string \<Rightarrow> AWSBatchJob \<Rightarrow> AWSBatchJob outcome" where
  "HandleError now m j =
     call_CtxCancel (NewStatusUpdate now FAILED (j\<lparr>APILogs := APILogs j @ [m]\<rparr>))"

text \<open>
  \<open>Create\<close>.  \<open>context.WithCancel\<close> panics on a nil parent; the child of a
  cancelled parent is cancelled.  In the branch \<open>j.Cmd == nil\<close> the variable \<open>err\<close>
  is nil, and \<open>err.Error()\<close> panics.
\<close>

definition Create :: "batch_env \<Rightarrow> AWSBatchJob \<Rightarrow> (string option \<times> AWSBatchJob) outcome" where
  "Create env j0 =
     (if Ctx j0 = NoContext then Panics
      else
        (let j = j0\<lparr>CtxCancel := True\<rparr>
         in (case ext_NewAWSBatchController env of
               Some e \<Rightarrow>
                 and_then (HandleError (ext_Now env) e j) (\<lambda>j'. Returns (Some e, j'))
             | None \<Rightarrow>
                 (case ext_JobCreate env of
                    Inl e \<Rightarrow>
                      and_then (HandleError (ext_Now env) e j) (\<lambda>j'. Returns (Some e, j'))
                  | Inr aWSBatchID \<Rightarrow>
                      (let j1 = j\<lparr>AWSBatchID := aWSBatchID, BatchContext := True\<rparr>
                       in if Cmd j1 = None then Panics
                          else Returns (None, NewStatusUpdate (ext_Now env) ACCEPTED j1))))))"

text \<open>
  The states of the job in the course of \<open>HandleError\<close> and of \<open>Create\<close>, one after
  each statement that writes to the job, in their order.  The cache holds the pointer to
  the job before \<open>Create\<close> is called, so each of them can be read from outside.  A
  panic ends the sequence where it happens.
\<close>

definition HandleError_states :: "time \<Rightarrow> string \<Rightarrow> AWSBatchJob \<Rightarrow> AWSBatchJob list" where
  "HandleError_states now m j =
     (let j1 = j\<lparr>APILogs := APILogs j @ [m]\<rparr>;
          j2 = NewStatusUpdate now FAILED j1
      in [j1, j2] @ (case call_CtxCancel j2 of Returns j3 \<Rightarrow> [j3] | Panics \<Rightarrow> [] | Blocks \<Rightarrow> []))"

definition Create_states :: "batch_env \<Rightarrow> AWSBatchJob \<Rightarrow> AWSBatchJob list" where
  "Create_states env j0 =
     (if Ctx j0 = NoContext then []
      else
        (let j = j0\<lparr>CtxCancel := True\<rparr>
         in j # (case ext_NewAWSBatchController env of
                   Some e \<Rightarrow> HandleError_states (ext_Now env) e j
                 | None \<Rightarrow>
                     (case ext_JobCreate env of
                        Inl e \<Rightarrow> HandleError_states (ext_Now env) e j
                      | Inr aWSBatchID \<Rightarrow>
                          (let j1 = j\<lparr>AWSBatchID := aWSBatchID, BatchContext := True\<rparr>
                           in j1 # (if Cmd j1 = None then []
                                    else [NewStatusUpdate (ext_Now env) ACCEPTED j1]))))))"

text \<open>
  One turn of the loop of \<open>Run\<close>, from the answer of \<open>JobMonitor\<close> to the sleep:
  \<open>Next\<close> carries \<open>oldStatus\<close> into the next turn, \<open>Stop\<close> is a \<open>return\<close>.
\<close>

datatype run_state = Next string AWSBatchJob | Stop AWSBatchJob

fun job_of :: "run_state \<Rightarrow> AWSBatchJob" where
  "job_of (Next oldStatus j) = j"
| "job_of (Stop j) = j"

definition Run_iteration :: "poll \<times> time \<Rightarrow> string \<Rightarrow> AWSBatchJob \<Rightarrow> run_state outcome" where
  "Run_iteration tick oldStatus j0 =
     (case tick of
        (Poll_err e, now) \<Rightarrow>
          and_then (HandleError now e j0) (\<lambda>j'. Returns (Stop j'))
      | (Poll_ok status logStream, now) \<Rightarrow>
          (let j = j0\<lparr>ContainerLogs := [logStream]\<rparr>
           in if status \<noteq> oldStatus then
                (if status = ''ACCEPTED'' then Returns (Next status (NewStatusUpdate now ACCEPTED j))
                 else if status = ''RUNNING'' then Returns (Next status (NewStatusUpdate now RUNNING j))
                 else if status = ''SUCCEEDED'' then
                   and_then (call_CtxCancel (NewStatusUpdate now SUCCESSFUL j)) (\<lambda>j'. Returns (Stop j'))
                 else if status = ''DISMISSED'' then
                   and_then (call_CtxCancel (NewStatusUpdate now DISMISSED j)) (\<lambda>j'. Returns (Stop j'))
                 else if status = ''FAILED'' then
                   and_then (call_CtxCancel (NewStatusUpdate now FAILED j)) (\<lambda>j'. Returns (Stop j'))
                 else Returns (Next status j))
              else Returns (Next status j)))"

text \<open>
  The loop over the answers received so far.  When they are used up the loop is asleep
  before its next poll, with \<open>oldStatus\<close> and the job as \<open>Next\<close> holds them.
\<close>

fun Run_loop :: "(poll \<times> time) list \<Rightarrow> string \<Rightarrow> AWSBatchJob \<Rightarrow> run_state outcome" where
  "Run_loop [] oldStatus j = Returns (Next oldStatus j)"
| "Run_loop (tick # ticks) oldStatus j =
     and_then (Run_iteration tick oldStatus j)
       (\<lambda>st. case st of
               Next oldStatus' j' \<Rightarrow> Run_loop ticks oldStatus' j'
             | Stop j' \<Rightarrow> Returns (Stop j'))"

definition Run :: "batch_env \<Rightarrow> AWSBatchJob \<Rightarrow> run_state outcome" where
  "Run env j =
     (case ext_NewAWSBatchController env of
        Some e \<Rightarrow>
          and_then (HandleError (ext_Now env) e j) (\<lambda>j'. Returns (Stop j'))
      | None \<Rightarrow>
          if AWSBatchID j = [] then
            and_then (HandleError (ext_Now env) ''AWSBatchID empty'' j) (\<lambda>j'. Returns (Stop j'))
          else Run_loop (ext_JobMonitor env) [] j)"

definition Kill :: "batch_env \<Rightarrow> AWSBatchJob \<Rightarrow> (string option \<times> AWSBatchJob) outcome" where
  "Kill env j =
     (case ext_NewAWSBatchController env of
        Some e \<Rightarrow>
          and_then (HandleError (ext_Now env) e j) (\<lambda>j'. Returns (Some e, j'))
      | None \<Rightarrow>
          (case ext_JobKill env of
             Some e \<Rightarrow> Returns (Some e, j)
           | None \<Rightarrow>
               and_then (call_CtxCancel (NewStatusUpdate (ext_Now env) DISMISSED j)) (\<lambda>j'. Returns (None, j'))))"

section \<open>The adapter in front of the monitor\<close>

text \<open>
  Modelled from the spec: \<open>JobMonitor\<close> of the batch controller, which hands the monitor
  loop the status of the job at the provider, is not among the sources.  The spec has the
  cloud batch adapter map the provider statuses \<open>SUBMITTED\<close>, \<open>PENDING\<close>,
  \<open>RUNNABLE\<close> and \<open>STARTING\<close> to accepted, \<open>RUNNING\<close> to running,
  \<open>SUCCEEDED\<close> to successful, \<open>FAILED\<close> to failed, and anything else to no change.
  The loop of \<open>Run\<close> reaches accepted, running, successful and failed under the names
  \<open>ACCEPTED\<close>, \<open>RUNNING\<close>, \<open>SUCCEEDED\<close> and \<open>FAILED\<close>, which are what the
  adapter answers; for anything else it answers the empty status, for which the loop has
  no case.
\<close>

definition JobMonitor_status :: "string \<Rightarrow> string" where
  "JobMonitor_status providerStatus =
     (if providerStatus = ''SUBMITTED'' \<or> providerStatus = ''PENDING''
         \<or> providerStatus = ''RUNNABLE'' \<or> providerStatus = ''STARTING'' then ''ACCEPTED''
      else if providerStatus = ''RUNNING'' then ''RUNNING''
      else if providerStatus = ''SUCCEEDED'' then ''SUCCEEDED''
      else if providerStatus = ''FAILED'' then ''FAILED''
      else [])"

text \<open>The answers of \<open>JobMonitor\<close> to a sequence of polls, each poll given by the status
  at the provider, the log stream and the reading of the clock.\<close>

definition JobMonitor_answers :: "(string \<times> string \<times> time) list \<Rightarrow> (poll \<times> time) list" where
  "JobMonitor_answers polls =
     map (\<lambda>(providerStatus, logStream, now).
            (Poll_ok (JobMonitor_status providerStatus) logStream, now)) polls"

text \<open>A poll at which the provider reports neither \<open>SUCCEEDED\<close> nor \<open>FAILED\<close>: the
  loop goes on after it.\<close>

definition still_polling :: "string \<times> string \<times> time \<Rightarrow> bool" where
  "still_polling poll =
     (case poll of (providerStatus, logStream, now) \<Rightarrow>
        providerStatus \<noteq> ''SUCCEEDED'' \<and> providerStatus \<noteq> ''FAILED'')"

text \<open>What the loop remembers of the last poll agrees with the status of the job.\<close>

definition monitor_in_step :: "string \<Rightarrow> AWSBatchJob \<Rightarrow> bool" where
  "monitor_in_step oldStatus j =
     (oldStatus = [] \<or> (oldStatus = ''ACCEPTED'' \<and> Status j = ACCEPTED)
      \<or> (oldStatus = ''RUNNING'' \<and> Status j = RUNNING))"

section \<open>Package \<open>jobs\<close>: the REST handlers\<close>

text \<open>
  The process description, as far as \<open>Execution\<close> reads it: \<open>p.Info\<close>,
  \<open>p.Runtime\<close> with its \<open>Provider\<close>, and whether \<open>p.Outputs\<close> is set.
\<close>

record process =
  Info_JobControlOptions :: "string list"
  Runtime_EntryPoint :: string
  Runtime_Repository :: string
  Runtime_EnvVars :: "string \<rightharpoonup> string"
  Runtime_Image :: string
  Runtime_Tag :: string
  Provider_Type :: string
  Provider_JobDefinition :: string
  Provider_JobQueue :: string
  Provider_Name :: string
  Outputs :: bool

text \<open>
  The fields that \<open>Execution\<close> gives to a \<open>DockerJob\<close>.  The type and its methods are
  not among these sources: a docker job is a value of an open type \<open>'d\<close>, and its
  methods are answers of the outside.
\<close>

record DockerJob =
  Docker_Ctx :: ctx_state
  Docker_UUID :: string
  Docker_ProcessName :: string
  Docker_Repository :: string
  Docker_EnvVars :: "string \<rightharpoonup> string"
  Docker_ImgTag :: string
  Docker_Cmd :: "string list option"

text \<open>The two kinds of job behind the interface \<open>Job\<close>.\<close>

datatype 'd job = Docker 'd | Batch AWSBatchJob

text \<open>A value of the \<open>inputs\<close> of a request: a string, or anything else.\<close>

datatype 'v input_value = String_value string | Other_value 'v

text \<open>
  What \<open>c.JSON\<close> is given: a status code and a body, which is a string, an error or a
  map literal (its entries in the order of the source).
\<close>

datatype ('o, 'l) field_value =
    S string
  | N int
  | T time
  | Outputs_value "'o option"
  | Logs_value 'l

datatype ('o, 'l) body =
    Text string
  | Error_value string
  | Object "(string \<times> ('o, 'l) field_value) list"

datatype ('o, 'l) response = JSON nat "('o, 'l) body"

definition StatusOK :: nat where "StatusOK = 200"
definition StatusCreated :: nat where "StatusCreated = 201"
definition StatusBadRequest :: nat where "StatusBadRequest = 400"
definition StatusNotFound :: nat where "StatusNotFound = 404"
definition StatusInternalServerError :: nat where "StatusInternalServerError = 500"

fun status_code :: "('o, 'l) response \<Rightarrow> nat" where
  "status_code (JSON c b) = c"

text \<open>The entry of a body under a key, when the body is a map that has it.\<close>

fun entry :: "string \<Rightarrow> ('o, 'l) response \<Rightarrow> ('o, 'l) field_value option" where
  "entry k (JSON c (Object kvs)) = map_of kvs k"
| "entry k (JSON c (Text t)) = None"
| "entry k (JSON c (Error_value e)) = None"

text \<open>
  The handler and what it points to.  A job lives at an address of \<open>heap\<close>;
  \<open>JobsCache.Jobs\<close> holds addresses, in the order in which \<open>range\<close> yields them.
\<close>

record 'd server =
  heap :: "nat \<rightharpoonup> 'd job"
  Jobs :: "nat list"

text \<open>The jobs that the cache leads to.\<close>

definition cached :: "'d server \<Rightarrow> 'd job list" where
  "cached srv = List.map_filter (heap srv) (Jobs srv)"

text \<open>
  The answers of the outside to the handlers: the batch service, the process list, the
  check of the inputs, the fresh uuid, the JSON encoder, \<open>JobsCache.Add\<close>, the docker
  job and its methods, the methods \<open>JobOutputs\<close> and \<open>JobLogs\<close>, the environment
  variables and the object store.
\<close>

record ('d, 'v, 'o, 'l) handler_env =
  ext_batch :: batch_env
  ext_ProcessList_Get :: "string \<Rightarrow> string + process"
  ext_verifyInputs :: "process \<Rightarrow> (string \<rightharpoonup> 'v input_value) \<Rightarrow> string option"
  ext_uuid_New :: string
  ext_json_Marshal :: "(string \<rightharpoonup> 'v input_value) \<Rightarrow> string + string"
  ext_JobsCache_Add :: "(nat \<rightharpoonup> 'd job) \<Rightarrow> nat \<Rightarrow> nat list \<Rightarrow> nat list"
  ext_new_DockerJob :: "DockerJob \<Rightarrow> 'd"
  ext_Docker_Create :: "'d \<Rightarrow> (string option \<times> 'd) outcome"
  ext_Docker_Run :: "'d \<Rightarrow> 'd outcome"
  ext_Docker_JobID :: "'d \<Rightarrow> string"
  ext_Docker_ProcessID :: "'d \<Rightarrow> string"
  ext_Docker_CurrentStatus :: "'d \<Rightarrow> string"
  ext_Docker_LastUpdate :: "'d \<Rightarrow> time"
  ext_JobOutputs :: "'d job \<Rightarrow> 'o"
  ext_JobLogs :: "'d job \<Rightarrow> 'l"
  ext_Getenv :: "string \<Rightarrow> string"
  ext_KeyExists :: "string \<Rightarrow> string + bool"
  ext_GetS3JsonData :: "string \<Rightarrow> string + 'o"

text \<open>The methods of \<open>Job\<close>, by the kind of the job.\<close>

fun job_JobID :: "('d, 'v, 'o, 'l) handler_env \<Rightarrow> 'd job \<Rightarrow> string" where
  "job_JobID env (Docker d) = ext_Docker_JobID env d"
| "job_JobID env (Batch b) = JobID b"

fun job_ProcessID :: "('d, 'v, 'o, 'l) handler_env \<Rightarrow> 'd job \<Rightarrow> string" where
  "job_ProcessID env (Docker d) = ext_Docker_ProcessID env d"
| "job_ProcessID env (Batch b) = ProcessID b"

fun job_CurrentStatus :: "('d, 'v, 'o, 'l) handler_env \<Rightarrow> 'd job \<Rightarrow> string" where
  "job_CurrentStatus env (Docker d) = ext_Docker_CurrentStatus env d"
| "job_CurrentStatus env (Batch b) = CurrentStatus b"

fun job_LastUpdate :: "('d, 'v, 'o, 'l) handler_env \<Rightarrow> 'd job \<Rightarrow> time" where
  "job_LastUpdate env (Docker d) = ext_Docker_LastUpdate env d"
| "job_LastUpdate env (Batch b) = LastUpdate b"

fun job_Create ::
  "('d, 'v, 'o, 'l) handler_env \<Rightarrow> 'd job \<Rightarrow> (string option \<times> 'd job) outcome" where
  "job_Create env (Docker d) =
     and_then (ext_Docker_Create env d) (\<lambda>(err, d'). Returns (err, Docker d'))"
| "job_Create env (Batch b) =
     and_then (Create (ext_batch env) b) (\<lambda>(err, b'). Returns (err, Batch b'))"

text \<open>\<open>j.Run()\<close> comes back when the monitor loop has returned.\<close>

fun job_Run :: "('d, 'v, 'o, 'l) handler_env \<Rightarrow> 'd job \<Rightarrow> 'd job outcome" where
  "job_Run env (Docker d) = and_then (ext_Docker_Run env d) (\<lambda>d'. Returns (Docker d'))"
| "job_Run env (Batch b) =
     and_then (Run (ext_batch env) b)
       (\<lambda>st. case st of Stop b' \<Rightarrow> Returns (Batch b') | Next oldStatus b' \<Rightarrow> Blocks)"

definition FetchResults :: "('d, 'v, 'o, 'l) handler_env \<Rightarrow> string \<Rightarrow> string + 'o" where
  "FetchResults env jid =
     (let key = ext_Getenv env ''S3_RESULTS_DIR'' @ ''/'' @ jid @ ''.json''
      in (case ext_KeyExists env key of
            Inl e \<Rightarrow> Inl e
          | Inr exist \<Rightarrow>
              if \<not> exist then Inl ''not found''
              else (case ext_GetS3JsonData env key of
                      Inl e \<Rightarrow> Inl e
                    | Inr data \<Rightarrow> Inr data)))"

text \<open>
  A request as \<open>Execution\<close> reads it: the path parameter and the result of
  \<open>c.Bind\<close>, which is an error or a body whose \<open>inputs\<close> may be missing.
\<close>

record 'v request =
  processID_param :: string
  bound_body :: "string + (string \<rightharpoonup> 'v input_value) option"

text \<open>The command of the job, from the entry point and the encoded inputs.\<close>

definition command_vector :: "process \<Rightarrow> string \<Rightarrow> string list" where
  "command_vector p jsonParams =
     (if Runtime_EntryPoint p = [] then [jsonParams]
      else [Runtime_EntryPoint p, jsonParams])"

text \<open>
  \<open>Execution\<close>, from the request to the job it builds: the result is the response
  that ends the request before a job is built, or the process, the job id and the job.
\<close>

definition Execution_build ::
  "('d, 'v, 'o, 'l) handler_env \<Rightarrow> 'v request
     \<Rightarrow> (('o, 'l) response + process \<times> string \<times> 'd job) outcome" where
  "Execution_build env req =
     (let processID = processID_param req
      in if processID = [] then
           Returns (Inl (JSON StatusBadRequest
                           (Text ([CHR 0x27] @ ''processID'' @ [CHR 0x27] @ '' parameter is required''))))
         else
           (case ext_ProcessList_Get env processID of
              Inl e \<Rightarrow>
                Returns (Inl (JSON StatusBadRequest
                                (Text (''processID '' @ [CHR 0x27] @ processID @ [CHR 0x27]
                                       @ '' is not an available process''))))
            | Inr p \<Rightarrow>
                (case bound_body req of
                   Inl e \<Rightarrow> Returns (Inl (JSON StatusBadRequest (Text e)))
                 | Inr None \<Rightarrow>
                     Returns (Inl (JSON StatusBadRequest
                                     (Text ([CHR 0x27] @ ''inputs'' @ [CHR 0x27]
                                            @ '' is required in the body of the request''))))
                 | Inr (Some inputs) \<Rightarrow>
                     (case ext_verifyInputs env p inputs of
                        Some e \<Rightarrow> Returns (Inl (JSON StatusBadRequest (Text e)))
                      | None \<Rightarrow>
                          (case Info_JobControlOptions p of
                             [] \<Rightarrow> Panics
                           | jobType # others \<Rightarrow>
                               (let jobID = ext_uuid_New env;
                                    inputs' = inputs(''jobID'' \<mapsto> String_value jobID)
                                in (case ext_json_Marshal env inputs' of
                                      Inl e \<Rightarrow> Returns (Inl (JSON StatusInternalServerError (Text e)))
                                    | Inr jsonParams \<Rightarrow>
                                        (let cmd = command_vector p jsonParams
                                         in if jobType = ''sync-execute'' then
                                              Returns (Inr (p, jobID,
                                                Docker (ext_new_DockerJob env
                                                  \<lparr>Docker_Ctx = Live,
                                                   Docker_UUID = jobID,
                                                   Docker_ProcessName = processID,
                                                   Docker_Repository = Runtime_Repository p,
                                                   Docker_EnvVars = Runtime_EnvVars p,
                                                   Docker_ImgTag = Runtime_Image p @ '':'' @ Runtime_Tag p,
                                                   Docker_Cmd = Some cmd\<rparr>)))
                                            else if Provider_Type p = ''aws-batch'' then
                                              Returns (Inr (p, jobID,
                                                Batch
                                                  \<lparr>Ctx = Live,
                                                   CtxCancel = False,
                                                   UUID = jobID,
                                                   AWSBatchID = [],
                                                   ProcessName = processID,
                                                   ImgTag = Runtime_Image p @ '':'' @ Runtime_Tag p,
                                                   Cmd = Some cmd,
                                                   UpdateTime = zero_time,
                                                   Status = [],
                                                   APILogs = [],
                                                   ContainerLogs = [],
                                                   JobDef = Provider_JobDefinition p,
                                                   JobQueue = Provider_JobQueue p,
                                                   JobName = Provider_Name p,
                                                   EnvVars = Map.empty,
                                                   BatchContext = False\<rparr>))
                                            else
                                              Returns (Inl (JSON StatusBadRequest
                                                (Text (''unsupported type '' @ jobType))))))))))))"

text \<open>
  \<open>Execution\<close>, from \<open>rh.JobsCache.Add(j)\<close> on.  The job is placed at the address
  \<open>ref\<close>; what \<open>Create\<close> and \<open>Run\<close> change is seen through every pointer to it.
  The last component of the result is the address of the job whose monitor was started
  with \<open>go j.Run()\<close>.
\<close>

definition Execution_submit ::
  "('d, 'v, 'o, 'l) handler_env \<Rightarrow> nat \<Rightarrow> process \<Rightarrow> string \<Rightarrow> 'd job \<Rightarrow> 'd server
     \<Rightarrow> (('o, 'l) response \<times> 'd server \<times> nat option) outcome" where
  "Execution_submit env ref p jobID j srv =
     (let h1 = (heap srv)(ref \<mapsto> j);
          srv1 = srv\<lparr>heap := h1, Jobs := ext_JobsCache_Add env h1 ref (Jobs srv)\<rparr>
      in and_then (job_Create env j)
           (\<lambda>(err, j1).
              let srv2 = srv1\<lparr>heap := (heap srv1)(ref \<mapsto> j1)\<rparr>
              in (case err of
                    Some e \<Rightarrow>
                      Returns (JSON StatusInternalServerError (Text (''submission errorr '' @ e)),
                               srv2, None)
                  | None \<Rightarrow>
                      (case Info_JobControlOptions p of
                         [] \<Rightarrow> Panics
                       | option # others \<Rightarrow>
                           if option = ''sync-execute'' then
                             and_then (job_Run env j1)
                               (\<lambda>j2.
                                  let srv3 = srv2\<lparr>heap := (heap srv2)(ref \<mapsto> j2)\<rparr>
                                  in (case (if Outputs p
                                            then (case FetchResults env (job_JobID env j2) of
                                                    Inl e \<Rightarrow> Inl e
                                                  | Inr data \<Rightarrow> Inr (Some data))
                                            else Inr None) of
                                        Inl e \<Rightarrow>
                                          Returns (JSON StatusInternalServerError (Error_value e),
                                                   srv3, None)
                                      | Inr outputs \<Rightarrow>
                                          if job_CurrentStatus env j2 = ''successful'' then
                                            Returns (JSON StatusOK
                                                       (Object [(''jobID'', S (job_JobID env j2)),
                                                                (''outputs'', Outputs_value outputs)]),
                                                     srv3, None)
                                          else
                                            Returns (JSON StatusInternalServerError
                                                       (Object [(''processID'', S (job_ProcessID env j2)),
                                                                (''type'', S ''process''),
                                                                (''jobID'', S jobID),
                                                                (''status'', N 0),
                                                                (''detail'', Logs_value (ext_JobLogs env j2))]),
                                                     srv3, None)))
                           else if option = ''async-execute'' then
                             Returns (JSON StatusCreated
                                        (Object [(''processID'', S (job_ProcessID env j1)),
                                                 (''type'', S ''process''),
                                                 (''jobID'', S jobID),
                                                 (''status'', S ''accepted'')]),
                                      srv2, Some ref)
                           else
                             Returns (JSON StatusInternalServerError
                                        (Object [(''processID'', S (job_ProcessID env j1)),
                                                 (''type'', S ''process''),
                                                 (''jobID'', S jobID),
                                                 (''status'', N 0),
                                                 (''detail'',
                                                  S ''incorrect controller option defined in process configuration'')]),
                                      srv2, None)))))"

definition Execution ::
  "('d, 'v, 'o, 'l) handler_env \<Rightarrow> nat \<Rightarrow> 'v request \<Rightarrow> 'd server
     \<Rightarrow> (('o, 'l) response \<times> 'd server \<times> nat option) outcome" where
  "Execution env ref req srv =
     and_then (Execution_build env req)
       (\<lambda>built. case built of
                 Inl resp \<Rightarrow> Returns (resp, srv, None)
               | Inr (p, jobID, j) \<Rightarrow> Execution_submit env ref p jobID j srv)"

text \<open>\<open>JobResultsHandler\<close>: the loop over the jobs of the cache, then the handler.\<close>

fun JobResultsHandler_range ::
  "('d, 'v, 'o, 'l) handler_env \<Rightarrow> 'd job list \<Rightarrow> string \<Rightarrow> ('o, 'l) response" where
  "JobResultsHandler_range env [] jobID =
     JSON StatusNotFound
       (Object [(''type'', S ''process''), (''jobID'', S jobID), (''status'', N 0),
                (''detail'', S ''jobID not found'')])"
| "JobResultsHandler_range env (j # js) jobID =
     (if job_JobID env j = jobID then
        (if job_CurrentStatus env j = SUCCESSFUL then
           JSON StatusOK
             (Object [(''type'', S ''process''), (''jobID'', S jobID),
                      (''status'', S (job_CurrentStatus env j)),
                      (''updated'', T (job_LastUpdate env j)),
                      (''outputs'', Outputs_value (Some (ext_JobOutputs env j)))])
         else if job_CurrentStatus env j = FAILED \<or> job_CurrentStatus env j = DISMISSED then
           JSON StatusOK
             (Object [(''type'', S ''process''), (''jobID'', S jobID),
                      (''status'', S (job_CurrentStatus env j)),
                      (''detail'', Logs_value (ext_JobLogs env j)),
                      (''updated'', T (job_LastUpdate env j))])
         else
           JSON StatusNotFound
             (Object [(''type'', S ''process''), (''jobID'', S jobID),
                      (''status'', S (job_CurrentStatus env j)),
                      (''detail'', S ''results not ready''),
                      (''updated'', T (job_LastUpdate env j))]))
      else JobResultsHandler_range env js jobID)"

definition JobResultsHandler ::
  "('d, 'v, 'o, 'l) handler_env \<Rightarrow> 'd server \<Rightarrow> string \<Rightarrow> ('o, 'l) response" where
  "JobResultsHandler env srv jobID = JobResultsHandler_range env (cached srv) jobID"


section \<open>Sample jobs, answers and requests\<close>

text \<open>A batch job of \<open>api/jobs\<close> that is running, and a batch service that refuses to
  kill \<open>batch-2\<close>.\<close>

definition sample_api_job :: api_AWSBatchJob where
  "sample_api_job =
     \<lparr>api_ctx = Live, api_UUID = ''job-1'', api_AWSBatchID = ''batch-1'',
      api_ProcessName = ''echo'', api_Image = ''img'', api_Cmd = [''{}''],
      api_UpdateTime = 5, api_Status = ''running'', apiLogs = [], containerLogs = [],
      api_JobDef = ''def'', api_JobQueue = ''queue'', api_JobName = ''name'',
      api_EnvVars = Map.empty, logStreamName = ''stream'', ProcessVersion = ''1''\<rparr>"

definition sample_api_env :: api_env where
  "sample_api_env =
     \<lparr>env_NewAWSBatchController = (\<lambda>region. None),
      env_JobKill = (\<lambda>id. if id = ''batch-2'' then Some ''kill refused'' else None),
      env_JobMonitor = (\<lambda>id. Inr (''RUNNING'', ''stream'')),
      env_NewSession = None,
      env_GetLogEvents = (\<lambda>name. Inr [''line'']),
      env_Now = 9,
      env_Errorf = (\<lambda>format. format)\<rparr>"

text \<open>A registry of four jobs: running, accepted, successful, running.\<close>

definition sample_registry :: "api_AWSBatchJob ActiveJobs" where
  "sample_registry =
     [''job-1'' \<mapsto> sample_api_job,
      ''job-2'' \<mapsto> sample_api_job\<lparr>api_UUID := ''job-2'', api_AWSBatchID := ''batch-2'',
                                     api_Status := ''accepted''\<rparr>,
      ''job-3'' \<mapsto> sample_api_job\<lparr>api_UUID := ''job-3'', api_AWSBatchID := ''batch-3'',
                                     api_Status := ''successful''\<rparr>,
      ''job-4'' \<mapsto> sample_api_job\<lparr>api_UUID := ''job-4'', api_AWSBatchID := ''batch-4''\<rparr>]"

text \<open>A batch job of package \<open>jobs\<close> as \<open>Create\<close> leaves it, and a batch service
  that refuses to create a job.\<close>

definition sample_job :: AWSBatchJob where
  "sample_job =
     \<lparr>Ctx = Live, CtxCancel = True, UUID = ''job-1'', AWSBatchID = ''batch-1'',
      ProcessName = ''echo'', ImgTag = ''img:1'', Cmd = Some [''{}''], UpdateTime = 5,
      Status = ''accepted'', APILogs = [], ContainerLogs = [], JobDef = ''def'',
      JobQueue = ''queue'', JobName = ''name'', EnvVars = Map.empty, BatchContext = True\<rparr>"

definition sample_batch_env :: batch_env where
  "sample_batch_env =
     \<lparr>ext_NewAWSBatchController = None, ext_JobCreate = Inl ''denied'', ext_JobKill = None,
      ext_JobMonitor = [], ext_Now = 9\<rparr>"

definition sample_process :: process where
  "sample_process =
     \<lparr>Info_JobControlOptions = [''async-execute''], Runtime_EntryPoint = ''run.sh'',
      Runtime_Repository = [], Runtime_EnvVars = Map.empty, Runtime_Image = ''img'',
      Runtime_Tag = ''1'', Provider_Type = ''aws-batch'', Provider_JobDefinition = ''def'',
      Provider_JobQueue = ''queue'', Provider_Name = ''name'', Outputs = False\<rparr>"

text \<open>
  Modelled from the spec: \<open>JobsCache.Add\<close> is not among the sources.  Of "insert,
  update size, then run eviction check" this is the insertion, for a cache below its trim
  threshold, where the check evicts nothing.
\<close>

definition JobsCache_Add_insert :: "(nat \<rightharpoonup> 'd job) \<Rightarrow> nat \<Rightarrow> nat list \<Rightarrow> nat list" where
  "JobsCache_Add_insert h ref jobs = jobs @ [ref]"

definition sample_handler_env :: "(unit, unit, string, string list) handler_env" where
  "sample_handler_env =
     \<lparr>ext_batch = sample_batch_env,
      ext_ProcessList_Get = (\<lambda>processID. if processID = ''echo'' then Inr sample_process
                                             else Inl ''no such process''),
      ext_verifyInputs = (\<lambda>p inputs. None),
      ext_uuid_New = ''job-1'',
      ext_json_Marshal = (\<lambda>inputs. case inputs ''jobID'' of
                                         Some (String_value s) \<Rightarrow> Inr (''{jobID:'' @ s @ ''}'')
                                       | _ \<Rightarrow> Inl ''unsupported value''),
      ext_JobsCache_Add = JobsCache_Add_insert,
      ext_new_DockerJob = (\<lambda>d. ()),
      ext_Docker_Create = (\<lambda>d. Returns (None, d)),
      ext_Docker_Run = (\<lambda>d. Returns d),
      ext_Docker_JobID = (\<lambda>d. []),
      ext_Docker_ProcessID = (\<lambda>d. []),
      ext_Docker_CurrentStatus = (\<lambda>d. ''successful''),
      ext_Docker_LastUpdate = (\<lambda>d. 0),
      ext_JobOutputs = (\<lambda>j. ''outputs''),
      ext_JobLogs = (\<lambda>j. case j of Docker d \<Rightarrow> [] | Batch b \<Rightarrow> APILogs b),
      ext_Getenv = (\<lambda>name. ''results''),
      ext_KeyExists = (\<lambda>key. Inr True),
      ext_GetS3JsonData = (\<lambda>key. Inr ''data'')\<rparr>"

definition sample_request :: "unit request" where
  "sample_request = \<lparr>processID_param = ''echo'', bound_body = Inr (Some Map.empty)\<rparr>"

definition sample_server :: "unit server" where
  "sample_server = \<lparr>heap = Map.empty, Jobs = []\<rparr>"

text \<open>The job that \<open>Execution\<close> builds for the sample request, and the same job after
  its \<open>Create\<close> has failed.\<close>

definition sample_built_job :: AWSBatchJob where
  "sample_built_job =
     \<lparr>Ctx = Live, CtxCancel = False, UUID = ''job-1'', AWSBatchID = [],
      ProcessName = ''echo'', ImgTag = ''img:1'', Cmd = Some [''run.sh'', ''{jobID:job-1}''],
      UpdateTime = 0, Status = [], APILogs = [], ContainerLogs = [], JobDef = ''def'',
      JobQueue = ''queue'', JobName = ''name'', EnvVars = Map.empty, BatchContext = False\<rparr>"

definition sample_failed_job :: AWSBatchJob where
  "sample_failed_job =
     \<lparr>Ctx = Cancelled, CtxCancel = True, UUID = ''job-1'', AWSBatchID = [],
      ProcessName = ''echo'', ImgTag = ''img:1'', Cmd = Some [''run.sh'', ''{jobID:job-1}''],
      UpdateTime = 9, Status = ''failed'', APILogs = [''denied''], ContainerLogs = [],
      JobDef = ''def'', JobQueue = ''queue'', JobName = ''name'', EnvVars = Map.empty,
      BatchContext = False\<rparr>"

section \<open>Auxiliary facts\<close>

lemmas status_defs = ACCEPTED_def RUNNING_def SUCCESSFUL_def FAILED_def DISMISSED_def

lemmas http_defs = StatusOK_def StatusCreated_def StatusBadRequest_def StatusNotFound_def
  StatusInternalServerError_def

lemma and_then_Returns:
  "and_then x f = Returns y \<longleftrightarrow> (\<exists>v. x = Returns v \<and> f v = Returns y)"
  by (cases x) auto

section \<open>Status updates\<close>

text \<open>
  In \<open>api/jobs\<close> a status update on a job in a terminal status changes nothing and
  writes no record, whatever the update and however many of them.
\<close>

lemma api_NewStatusUpdate_terminal_noop:
  "api_Status j = SUCCESSFUL \<or> api_Status j = DISMISSED \<or> api_Status j = FAILED \<Longrightarrow>
   api_NewStatusUpdate now status updateTime (j, calls) = (j, calls)"
  by (simp add: api_NewStatusUpdate_def)

lemma api_NewStatusUpdate_sequence_terminal:
  "api_Status j = SUCCESSFUL \<or> api_Status j = DISMISSED \<or> api_Status j = FAILED \<Longrightarrow>
   fold (\<lambda>(now, status, updateTime). api_NewStatusUpdate now status updateTime) updates (j, calls)
     = (j, calls)"
  by (induction updates) (auto simp: api_NewStatusUpdate_terminal_noop)

text \<open>
  C1.  Once the status of a job is successful, failed or dismissed, a call of
  \<open>NewStatusUpdate\<close> leaves the status and the last update as they are.  The two lemmas
  above are this for \<open>api/jobs\<close>.  In package \<open>jobs\<close> the update is written whatever
  the status: on a successful job, \<open>NewStatusUpdate(RUNNING)\<close> at time 9 gives a running
  job updated at 9, and a \<open>Kill\<close> that the batch service accepts gives a dismissed one.
\<close>

theorem jobs_NewStatusUpdate_overwrites_terminal:
  "CurrentStatus (sample_job\<lparr>Status := ''successful''\<rparr>) = SUCCESSFUL
   \<and> NewStatusUpdate 9 RUNNING (sample_job\<lparr>Status := ''successful''\<rparr>)
       = sample_job\<lparr>Status := ''running'', UpdateTime := 9\<rparr>
   \<and> Kill sample_batch_env (sample_job\<lparr>Status := ''successful''\<rparr>)
       = Returns (None, sample_job\<lparr>Status := ''dismissed'', UpdateTime := 9, Ctx := Cancelled\<rparr>)"
  by (simp add: NewStatusUpdate_def CurrentStatus_def Kill_def call_CtxCancel_def
        sample_job_def sample_batch_env_def status_defs)

text \<open>
  C10.  On a job whose status is not terminal, \<open>NewStatusUpdate(status, updateTime)\<close>
  of \<open>api/jobs\<close> sets the status to \<open>status\<close>, and the last update to
  \<open>updateTime\<close> when that is not the zero time and to the reading of the clock when it
  is.
\<close>

theorem api_NewStatusUpdate_non_terminal:
  assumes "api_CurrentStatus j \<noteq> SUCCESSFUL"
    and "api_CurrentStatus j \<noteq> FAILED"
    and "api_CurrentStatus j \<noteq> DISMISSED"
  shows "api_CurrentStatus (fst (api_NewStatusUpdate now status updateTime (j, calls))) = status
       \<and> api_LastUpdate (fst (api_NewStatusUpdate now status updateTime (j, calls)))
           = (if IsZero updateTime then now else updateTime)"
  using assms
  by (simp add: api_NewStatusUpdate_def api_CurrentStatus_def api_LastUpdate_def Let_def)

theorem api_NewStatusUpdate_non_terminal_witness:
  "api_CurrentStatus sample_api_job \<noteq> SUCCESSFUL
   \<and> api_CurrentStatus sample_api_job \<noteq> FAILED
   \<and> api_CurrentStatus sample_api_job \<noteq> DISMISSED
   \<and> api_CurrentStatus (fst (api_NewStatusUpdate 9 ''successful'' zero_time (sample_api_job, [])))
       = ''successful''
   \<and> api_LastUpdate (fst (api_NewStatusUpdate 9 ''successful'' zero_time (sample_api_job, []))) = 9
   \<and> api_LastUpdate (fst (api_NewStatusUpdate 9 ''successful'' 7 (sample_api_job, []))) = 7"
proof -
  have h: "api_CurrentStatus sample_api_job \<noteq> SUCCESSFUL"
    "api_CurrentStatus sample_api_job \<noteq> FAILED"
    "api_CurrentStatus sample_api_job \<noteq> DISMISSED"
    by (simp_all add: api_CurrentStatus_def sample_api_job_def status_defs)
  from api_NewStatusUpdate_non_terminal[OF h, of 9 "''successful''" zero_time "[]"]
    api_NewStatusUpdate_non_terminal[OF h, of 9 "''successful''" 7 "[]"] h
  show ?thesis by (simp add: IsZero_def zero_time_def)
qed

section \<open>\<open>Kill\<close> in \<open>api/jobs\<close>\<close>

text \<open>
  C9.  On a job whose status is successful, failed or dismissed, \<open>Kill\<close> returns an
  error and issues no call at all, so none to the batch service; the job is as before
  but for the message \<open>Received dismiss signal\<close> at the end of its api log, so its status
  and its last update are unchanged.
\<close>

theorem api_Kill_terminal_refused:
  assumes "api_CurrentStatus j = SUCCESSFUL \<or> api_CurrentStatus j = FAILED
           \<or> api_CurrentStatus j = DISMISSED"
  shows "\<exists>msg j'. api_Kill env (j, calls) = Returns (Some msg, (j', calls))
           \<and> j' = j\<lparr>apiLogs := apiLogs j @ [''Received dismiss signal'']\<rparr>
           \<and> api_CurrentStatus j' = api_CurrentStatus j
           \<and> api_LastUpdate j' = api_LastUpdate j"
  using assms
  by (auto simp add: api_Kill_def api_NewMessage_def api_CurrentStatus_def api_LastUpdate_def
        Let_def)

theorem api_Kill_terminal_refused_witness:
  "(api_CurrentStatus (sample_api_job\<lparr>api_Status := ''failed''\<rparr>) = SUCCESSFUL
      \<or> api_CurrentStatus (sample_api_job\<lparr>api_Status := ''failed''\<rparr>) = FAILED
      \<or> api_CurrentStatus (sample_api_job\<lparr>api_Status := ''failed''\<rparr>) = DISMISSED)
   \<and> (\<exists>msg. api_Kill sample_api_env (sample_api_job\<lparr>api_Status := ''failed''\<rparr>, [])
         = Returns (Some msg,
             (sample_api_job\<lparr>api_Status := ''failed'', apiLogs := [''Received dismiss signal'']\<rparr>,
              [])))"
proof -
  have h: "api_CurrentStatus (sample_api_job\<lparr>api_Status := ''failed''\<rparr>) = SUCCESSFUL
      \<or> api_CurrentStatus (sample_api_job\<lparr>api_Status := ''failed''\<rparr>) = FAILED
      \<or> api_CurrentStatus (sample_api_job\<lparr>api_Status := ''failed''\<rparr>) = DISMISSED"
    by (simp add: api_CurrentStatus_def status_defs)
  from api_Kill_terminal_refused[OF h, of sample_api_env "[]"] h
  show ?thesis by (simp add: sample_api_job_def)
qed

text \<open>Pulling the logs in \<open>api/jobs\<close> touches the log stream name and the container
  logs of the job and nothing else, whether it fails or not.\<close>

lemma getLogStreamName_keeps_status:
  "api_Status (fst (snd (getLogStreamName env (j, calls)))) = api_Status j
   \<and> api_UpdateTime (fst (snd (getLogStreamName env (j, calls)))) = api_UpdateTime j"
  by (simp add: getLogStreamName_def Let_def split: option.splits sum.splits prod.splits)

lemma fetchCloudWatchLogs_keeps_status:
  "api_Status (fst (snd (fetchCloudWatchLogs env (j, calls)))) = api_Status j
   \<and> api_UpdateTime (fst (snd (fetchCloudWatchLogs env (j, calls)))) = api_UpdateTime j"
proof (cases "logStreamName j = []")
  case True
  obtain r j1 calls1 where g: "getLogStreamName env (j, calls) = (r, (j1, calls1))"
    by (metis prod.exhaust)
  with getLogStreamName_keeps_status[of env j calls]
  have "api_Status j1 = api_Status j" "api_UpdateTime j1 = api_UpdateTime j" by simp_all
  with True g show ?thesis
    by (simp add: fetchCloudWatchLogs_def Let_def split: option.splits sum.splits)
next
  case False
  then show ?thesis
    by (simp add: fetchCloudWatchLogs_def Let_def split: option.splits sum.splits)
qed

text \<open>A \<open>Kill\<close> that returns nil leaves the job dismissed, and by the lemmas on status
  updates above it stays so under every later update.\<close>

lemma api_Close_keeps_status:
  "api_Close env (j, calls) = Returns (j', calls') \<Longrightarrow> api_Status j' = api_Status j"
proof -
  assume a: "api_Close env (j, calls) = Returns (j', calls')"
  obtain r j1 calls1 where
    f: "fetchCloudWatchLogs env (j\<lparr>api_ctx := Cancelled\<rparr>, calls @ [Call_ctxCancel]) = (r, (j1, calls1))"
    by (metis prod.exhaust)
  with fetchCloudWatchLogs_keeps_status[of env "j\<lparr>api_ctx := Cancelled\<rparr>" "calls @ [Call_ctxCancel]"]
  have "api_Status j1 = api_Status j" by simp
  with a f show ?thesis
    by (auto simp: api_Close_def api_NewMessage_def Let_def split: if_splits option.splits)
qed

lemma api_Kill_success_dismissed:
  assumes "api_Kill env (j, calls) = Returns (None, (j', calls'))"
  shows "api_Status j' = DISMISSED"
proof -
  let ?j = "api_NewMessage ''Received dismiss signal'' j"
  from assms have nt: "\<not> (api_Status ?j = SUCCESSFUL \<or> api_Status ?j = FAILED \<or> api_Status ?j = DISMISSED)"
    by (auto simp: api_Kill_def api_CurrentStatus_def Let_def)
  from assms nt obtain calls2 where
    c: "api_Close env (api_NewStatusUpdate (env_Now env) DISMISSED zero_time (?j, calls2))
          = Returns (j', calls')"
    by (auto simp: api_Kill_def api_CurrentStatus_def Let_def and_then_Returns
             split: option.splits)
  obtain j2 calls3 where
    u: "api_NewStatusUpdate (env_Now env) DISMISSED zero_time (?j, calls2) = (j2, calls3)"
    by (metis prod.exhaust)
  with nt have "api_Status j2 = DISMISSED"
    by (auto simp: api_NewStatusUpdate_def Let_def split: if_splits)
  with c u api_Close_keeps_status[of env j2 calls3 j' calls'] show ?thesis by simp
qed

section \<open>\<open>KillAll\<close>\<close>

lemma filter_active_upd:
  "k \<notin> set ks \<Longrightarrow>
   filter (registered_active st (ac(k \<mapsto> j'))) ks = filter (registered_active st ac) ks"
  by (rule filter_cong) (auto simp: registered_active_def)

lemma KillAll_range_cases:
  assumes "KillAll_range st kill (k # ks) ac = Returns (err, ac', killed)"
  obtains
    (skip) "\<not> registered_active st ac k" "KillAll_range st kill ks ac = Returns (err, ac', killed)"
  | (fail) j j' e where "registered_active st ac k" "ac k = Some j" "kill j = Returns (Some e, j')"
      "err = Some e" "ac' = ac(k \<mapsto> j')" "killed = [k]"
  | (go) j j' killed' where "registered_active st ac k" "ac k = Some j" "kill j = Returns (None, j')"
      "KillAll_range st kill ks (ac(k \<mapsto> j')) = Returns (err, ac', killed')" "killed = k # killed'"
proof (cases "ac k")
  case None
  with assms skip show ?thesis by (simp add: registered_active_def)
next
  case (Some j)
  show ?thesis
  proof (cases "st j = ACCEPTED \<or> st j = RUNNING")
    case False
    with Some assms skip show ?thesis by (simp add: registered_active_def)
  next
    case True
    then have act: "registered_active st ac k" using Some by (simp add: registered_active_def)
    from assms Some True obtain r j' where
      kj: "kill j = Returns (r, j')" and
      rest: "(case r of
                Some e \<Rightarrow> Returns (Some e, ac(k \<mapsto> j'), [k])
              | None \<Rightarrow>
                  and_then (KillAll_range st kill ks (ac(k \<mapsto> j')))
                    (\<lambda>(r, ac', killed). Returns (r, ac', k # killed)))
             = Returns (err, ac', killed)"
      by (auto simp: and_then_Returns)
    show ?thesis
    proof (cases r)
      case None
      with rest obtain killed' where
        "KillAll_range st kill ks (ac(k \<mapsto> j')) = Returns (err, ac', killed')" "killed = k # killed'"
        by (auto simp: and_then_Returns)
      with go act Some kj None show ?thesis by blast
    next
      case (Some e)
      with rest have "err = Some e" "ac' = ac(k \<mapsto> j')" "killed = [k]" by simp_all
      with fail act \<open>ac k = Some j\<close> kj Some show ?thesis by blast
    qed
  qed
qed

lemma KillAll_range_subset:
  "KillAll_range st kill ks ac = Returns (err, ac', killed) \<Longrightarrow> set killed \<subseteq> set ks"
proof (induction ks arbitrary: ac killed)
  case Nil
  then show ?case by simp
next
  case (Cons k ks)
  from Cons.prems show ?case
  proof (cases rule: KillAll_range_cases)
    case skip
    with Cons.IH show ?thesis by auto
  next
    case (fail j j' e)
    then show ?thesis by simp
  next
    case (go j j' killed')
    with Cons.IH show ?thesis by auto
  qed
qed

lemma KillAll_range_prefix:
  "distinct ks \<Longrightarrow> KillAll_range st kill ks ac = Returns (err, ac', killed) \<Longrightarrow>
   \<exists>rest. filter (registered_active st ac) ks = killed @ rest \<and> (err = None \<longrightarrow> rest = [])"
proof (induction ks arbitrary: ac killed)
  case Nil
  then show ?case by simp
next
  case (Cons k ks)
  from Cons.prems(2) show ?case
  proof (cases rule: KillAll_range_cases)
    case skip
    with Cons.IH Cons.prems(1) show ?thesis by simp
  next
    case (fail j j' e)
    then show ?thesis by simp
  next
    case (go j j' killed')
    from Cons.prems(1) have d: "distinct ks" and nk: "k \<notin> set ks" by simp_all
    from Cons.IH[OF d go(4)] obtain rest where
      "filter (registered_active st (ac(k \<mapsto> j'))) ks = killed' @ rest" "err = None \<longrightarrow> rest = []"
      by blast
    with go nk show ?thesis by (simp add: filter_active_upd)
  qed
qed

lemma KillAll_range_error_nonempty:
  "KillAll_range st kill ks ac = Returns (Some e, ac', killed) \<Longrightarrow> killed \<noteq> []"
proof (induction ks arbitrary: ac killed)
  case Nil
  then show ?case by simp
next
  case (Cons k ks)
  from Cons.prems show ?case
  proof (cases rule: KillAll_range_cases)
    case skip
    with Cons.IH show ?thesis by auto
  next
    case (fail j j' e)
    then show ?thesis by simp
  next
    case (go j j' killed')
    then show ?thesis by simp
  qed
qed

lemma KillAll_range_untouched:
  "KillAll_range st kill ks ac = Returns (err, ac', killed) \<Longrightarrow> k \<notin> set killed \<Longrightarrow> ac' k = ac k"
proof (induction ks arbitrary: ac killed)
  case Nil
  then show ?case by simp
next
  case (Cons x ks)
  from Cons.prems(1) show ?case
  proof (cases rule: KillAll_range_cases)
    case skip
    with Cons.IH Cons.prems(2) show ?thesis by auto
  next
    case (fail j j' e)
    with Cons.prems(2) show ?thesis by simp
  next
    case (go j j' killed')
    with Cons.IH[OF go(4)] Cons.prems(2) show ?thesis by simp
  qed
qed

lemma KillAll_range_results:
  "distinct ks \<Longrightarrow> KillAll_range st kill ks ac = Returns (err, ac', killed) \<Longrightarrow> k \<in> set killed \<Longrightarrow>
   \<exists>j j'. ac k = Some j \<and> kill j = Returns (if k = last killed then err else None, j')
         \<and> ac' k = Some j'"
proof (induction ks arbitrary: ac killed)
  case Nil
  then show ?case by simp
next
  case (Cons x ks)
  from Cons.prems(2) show ?case
  proof (cases rule: KillAll_range_cases)
    case skip
    with Cons.IH Cons.prems show ?thesis by auto
  next
    case (fail j j' e)
    with Cons.prems(3) show ?thesis by simp
  next
    case (go j j' killed')
    from Cons.prems(1) have d: "distinct ks" and nk: "x \<notin> set ks" by simp_all
    have sub: "set killed' \<subseteq> set ks" using KillAll_range_subset[OF go(4)] .
    show ?thesis
    proof (cases "k = x")
      case True
      then have "k \<notin> set killed'" using sub nk by auto
      then have upd: "ac' k = Some j'" using KillAll_range_untouched[OF go(4)] True by simp
      show ?thesis
      proof (cases "killed' = []")
        case True
        have "err = None"
        proof (cases err)
          case None then show ?thesis .
        next
          case (Some e)
          with go(4) True KillAll_range_error_nonempty[of st kill ks "ac(x \<mapsto> j')" e ac' killed']
          show ?thesis by simp
        qed
        with True \<open>k = x\<close> go upd show ?thesis by simp
      next
        case False
        then have "last killed' \<in> set ks" using sub last_in_set by blast
        then have "last killed' \<noteq> x" using nk by auto
        with False \<open>k = x\<close> go upd show ?thesis by simp
      qed
    next
      case False
      with Cons.prems(3) go have mem: "k \<in> set killed'" by simp
      then have "killed' \<noteq> []" by auto
      then have "last killed = last killed'" using go(5) by simp
      with Cons.IH[OF d go(4) mem] False show ?thesis by simp
    qed
  qed
qed

lemma KillAll_range_returns:
  "distinct ks \<Longrightarrow>
   (\<forall>k j. k \<in> set ks \<longrightarrow> ac k = Some j \<longrightarrow> registered_active st ac k \<longrightarrow>
      (\<exists>r j'. kill j = Returns (r, j'))) \<Longrightarrow>
   \<exists>err ac' killed. KillAll_range st kill ks ac = Returns (err, ac', killed)"
proof (induction ks arbitrary: ac)
  case Nil
  show ?case by simp
next
  case (Cons k ks)
  from Cons.prems(1) have d: "distinct ks" and nk: "k \<notin> set ks" by simp_all
  show ?case
  proof (cases "registered_active st ac k")
    case False
    have "\<forall>k' j. k' \<in> set ks \<longrightarrow> ac k' = Some j \<longrightarrow> registered_active st ac k' \<longrightarrow>
            (\<exists>r j'. kill j = Returns (r, j'))"
      using Cons.prems(2) by simp
    from Cons.IH[OF d this] False show ?thesis
      by (auto simp: registered_active_def split: option.splits)
  next
    case True
    then obtain j where j: "ac k = Some j" and a: "st j = ACCEPTED \<or> st j = RUNNING"
      by (auto simp: registered_active_def split: option.splits)
    have "k \<in> set (k # ks)" by simp
    with Cons.prems(2) j True obtain r j' where kj: "kill j = Returns (r, j')" by blast
    show ?thesis
    proof (cases r)
      case (Some e)
      with j a kj show ?thesis by simp
    next
      case None
      have "\<forall>k' ja. k' \<in> set ks \<longrightarrow> (ac(k \<mapsto> j')) k' = Some ja \<longrightarrow>
              registered_active st (ac(k \<mapsto> j')) k' \<longrightarrow> (\<exists>r j'. kill ja = Returns (r, j'))"
        using Cons.prems(2) nk by (auto simp: registered_active_def)
      from Cons.IH[OF d this] obtain err ac' killed where
        "KillAll_range st kill ks (ac(k \<mapsto> j')) = Returns (err, ac', killed)" by blast
      with j a kj None show ?thesis by simp
    qed
  qed
qed

text \<open>
  C5.  Whatever the order in which \<open>range\<close> yields the keys of the registry:
  \<open>KillAll\<close> returns when every \<open>Kill\<close> on an accepted or running job returns;
  when each of them returns nil, \<open>KillAll\<close> returns nil and has invoked \<open>Kill\<close> on
  every accepted or running job, in that order; and whenever it returns, it has invoked
  \<open>Kill\<close> on jobs whose status is accepted or running only, each once, in that order,
  the keys killed being a prefix of the active keys, which is all of them when the
  result is nil; when the result is an error it is the error of the last \<open>Kill\<close>
  invoked, the ones before it returned nil, and the active jobs after it were not
  attempted.  A job on which \<open>Kill\<close> was not invoked is as before.
\<close>

theorem KillAll_kills_active_until_first_error:
  assumes "distinct order" and "set order = dom ac"
  shows "((\<forall>k j. ac k = Some j \<longrightarrow> registered_active st ac k \<longrightarrow> (\<exists>r j'. kill j = Returns (r, j')))
            \<longrightarrow> (\<exists>err ac' killed. KillAll st kill order ac = Returns (err, ac', killed)))
       \<and> ((\<forall>k j. ac k = Some j \<longrightarrow> registered_active st ac k \<longrightarrow> (\<exists>j'. kill j = Returns (None, j')))
            \<longrightarrow> (\<exists>ac'. KillAll st kill order ac
                          = Returns (None, ac', filter (registered_active st ac) order)))
       \<and> (\<forall>err ac' killed. KillAll st kill order ac = Returns (err, ac', killed) \<longrightarrow>
            (\<exists>rest. filter (registered_active st ac) order = killed @ rest \<and> (err = None \<longrightarrow> rest = []))
          \<and> set killed \<subseteq> {k. registered_active st ac k}
          \<and> (err = None \<longrightarrow> set killed = {k. registered_active st ac k})
          \<and> (err \<noteq> None \<longrightarrow> killed \<noteq> [])
          \<and> (\<forall>k \<in> set killed. \<exists>j j'. ac k = Some j
                 \<and> kill j = Returns (if k = last killed then err else None, j') \<and> ac' k = Some j')
          \<and> (\<forall>k. k \<notin> set killed \<longrightarrow> ac' k = ac k))"
proof -
  have part: "\<And>err ac' killed. KillAll st kill order ac = Returns (err, ac', killed) \<Longrightarrow>
            (\<exists>rest. filter (registered_active st ac) order = killed @ rest \<and> (err = None \<longrightarrow> rest = []))
          \<and> set killed \<subseteq> {k. registered_active st ac k}
          \<and> (err = None \<longrightarrow> set killed = {k. registered_active st ac k})
          \<and> (err \<noteq> None \<longrightarrow> killed \<noteq> [])
          \<and> (\<forall>k \<in> set killed. \<exists>j j'. ac k = Some j
                 \<and> kill j = Returns (if k = last killed then err else None, j') \<and> ac' k = Some j')
          \<and> (\<forall>k. k \<notin> set killed \<longrightarrow> ac' k = ac k)"
  proof -
    fix err ac' killed
    assume "KillAll st kill order ac = Returns (err, ac', killed)"
    then have run: "KillAll_range st kill order ac = Returns (err, ac', killed)"
      by (simp add: KillAll_def)
    from KillAll_range_prefix[OF assms(1) run] obtain rest where
      pre: "filter (registered_active st ac) order = killed @ rest" "err = None \<longrightarrow> rest = []"
      by blast
    have dom: "{k. registered_active st ac k} \<subseteq> set order"
      using assms(2) by (auto simp: registered_active_def split: option.splits)
    have sub: "set killed \<subseteq> {k. registered_active st ac k}"
    proof -
      have "set killed \<subseteq> set (filter (registered_active st ac) order)" using pre(1) by simp
      then show ?thesis by auto
    qed
    have all: "err = None \<longrightarrow> set killed = {k. registered_active st ac k}"
    proof
      assume "err = None"
      with pre have "set killed = set (filter (registered_active st ac) order)" by simp
      with dom show "set killed = {k. registered_active st ac k}" by auto
    qed
    have ne: "err \<noteq> None \<longrightarrow> killed \<noteq> []"
      using run KillAll_range_error_nonempty[of st kill order ac _ ac' killed] by (cases err) auto
    have res: "\<forall>k \<in> set killed. \<exists>j j'. ac k = Some j
                \<and> kill j = Returns (if k = last killed then err else None, j') \<and> ac' k = Some j'"
      using KillAll_range_results[OF assms(1) run] by blast
    have unt: "\<forall>k. k \<notin> set killed \<longrightarrow> ac' k = ac k"
      using KillAll_range_untouched[OF run] by blast
    from pre sub all ne res unt
    show "(\<exists>rest. filter (registered_active st ac) order = killed @ rest \<and> (err = None \<longrightarrow> rest = []))
          \<and> set killed \<subseteq> {k. registered_active st ac k}
          \<and> (err = None \<longrightarrow> set killed = {k. registered_active st ac k})
          \<and> (err \<noteq> None \<longrightarrow> killed \<noteq> [])
          \<and> (\<forall>k \<in> set killed. \<exists>j j'. ac k = Some j
                 \<and> kill j = Returns (if k = last killed then err else None, j') \<and> ac' k = Some j')
          \<and> (\<forall>k. k \<notin> set killed \<longrightarrow> ac' k = ac k)"
      by blast
  qed
  have tot: "(\<forall>k j. ac k = Some j \<longrightarrow> registered_active st ac k \<longrightarrow> (\<exists>r j'. kill j = Returns (r, j')))
            \<longrightarrow> (\<exists>err ac' killed. KillAll st kill order ac = Returns (err, ac', killed))"
  proof
    assume "\<forall>k j. ac k = Some j \<longrightarrow> registered_active st ac k \<longrightarrow> (\<exists>r j'. kill j = Returns (r, j'))"
    then have "\<forall>k j. k \<in> set order \<longrightarrow> ac k = Some j \<longrightarrow> registered_active st ac k \<longrightarrow>
                 (\<exists>r j'. kill j = Returns (r, j'))" by blast
    from KillAll_range_returns[OF assms(1) this]
    show "\<exists>err ac' killed. KillAll st kill order ac = Returns (err, ac', killed)"
      by (simp add: KillAll_def)
  qed
  have nil: "(\<forall>k j. ac k = Some j \<longrightarrow> registered_active st ac k \<longrightarrow> (\<exists>j'. kill j = Returns (None, j')))
            \<longrightarrow> (\<exists>ac'. KillAll st kill order ac
                          = Returns (None, ac', filter (registered_active st ac) order))"
  proof
    assume a: "\<forall>k j. ac k = Some j \<longrightarrow> registered_active st ac k \<longrightarrow> (\<exists>j'. kill j = Returns (None, j'))"
    then have "\<forall>k j. ac k = Some j \<longrightarrow> registered_active st ac k \<longrightarrow> (\<exists>r j'. kill j = Returns (r, j'))"
      by blast
    with tot obtain err ac' killed where r: "KillAll st kill order ac = Returns (err, ac', killed)"
      by blast
    note p = part[OF r]
    have "err = None"
    proof (cases err)
      case None then show ?thesis .
    next
      case (Some e)
      with p have ne: "killed \<noteq> []" by simp
      then have "last killed \<in> set killed" by simp
      with p obtain j j' where "ac (last killed) = Some j" "kill j = Returns (err, j')"
        by fastforce
      moreover from p \<open>last killed \<in> set killed\<close> have "registered_active st ac (last killed)" by blast
      ultimately show ?thesis using a by fastforce
    qed
    with p r show "\<exists>ac'. KillAll st kill order ac
                          = Returns (None, ac', filter (registered_active st ac) order)"
      by auto
  qed
  from tot nil part show ?thesis by blast
qed

text \<open>\<open>Kill\<close> of \<open>api/jobs\<close> returns nil on an accepted or running job that has its
  context, when the batch service accepts the kill.\<close>

lemma api_Close_returns:
  "api_ctx j \<noteq> NoContext \<Longrightarrow> \<exists>s'. api_Close env (j, calls) = Returns s'"
  by (simp add: api_Close_def Let_def split: prod.splits)

lemma api_Kill_method_success:
  assumes "env_NewAWSBatchController env ''AWS_REGION'' = None"
    and "env_JobKill env (api_AWSBatchID j) = None"
    and "api_ctx j \<noteq> NoContext"
    and "api_CurrentStatus j = ACCEPTED \<or> api_CurrentStatus j = RUNNING"
  shows "\<exists>j'. api_Kill_method env j = Returns (None, j')"
proof -
  let ?j = "api_NewMessage ''Received dismiss signal'' j"
  obtain j2 calls2 where u: "api_NewStatusUpdate (env_Now env) DISMISSED zero_time
      (?j, [Call_NewAWSBatchController ''AWS_REGION'', Call_JobKill (api_AWSBatchID ?j)]) = (j2, calls2)"
    by (metis prod.exhaust)
  have "api_ctx j2 = api_ctx j"
    using u by (auto simp: api_NewStatusUpdate_def api_NewMessage_def Let_def split: if_splits)
  with assms(3) api_Close_returns[of j2 env calls2] obtain s' where
    c: "api_Close env (j2, calls2) = Returns s'" by auto
  from assms u c show ?thesis
    by (auto simp: api_Kill_method_def api_Kill_def api_CurrentStatus_def api_NewMessage_def
          Let_def status_defs)
qed

lemma sample_registry_jobs:
  "sample_registry k = Some j \<Longrightarrow> api_ctx j = Live"
  by (auto simp: sample_registry_def sample_api_job_def split: if_splits)

lemma sample_kill_1: "api_Kill_method sample_api_env sample_api_job
   = Returns (None, sample_api_job\<lparr>api_ctx := Cancelled, api_UpdateTime := 9, api_Status := ''dismissed'',
        apiLogs := [''Received dismiss signal''], containerLogs := [''line'']\<rparr>)"
  by (simp add: api_Kill_method_def api_Kill_def api_Close_def fetchCloudWatchLogs_def
        api_NewStatusUpdate_def api_NewMessage_def api_CurrentStatus_def api_ProcessID_def
        sample_api_env_def sample_api_job_def status_defs IsZero_def zero_time_def Let_def)

lemma sample_kill_2: "api_Kill_method sample_api_env
     (sample_api_job\<lparr>api_UUID := ''job-2'', api_AWSBatchID := ''batch-2'', api_Status := ''accepted''\<rparr>)
   = Returns (Some ''kill refused'',
       sample_api_job\<lparr>api_UUID := ''job-2'', api_AWSBatchID := ''batch-2'', api_Status := ''accepted'',
         apiLogs := [''Received dismiss signal'',
                     ''Could not send kill signal to AWS Batch API. Error: kill refused'']\<rparr>)"
  by (simp add: api_Kill_method_def api_Kill_def api_NewMessage_def api_CurrentStatus_def
        sample_api_env_def sample_api_job_def status_defs Let_def)

text \<open>On the sample registry, visited in the order 3, 1, 2, 4: job 3 is skipped, job 1 is
  killed, the kill of job 2 is refused, job 4 is not attempted.  With a batch service that
  refuses nothing, jobs 1, 2 and 4 are killed and the result is nil.\<close>

theorem KillAll_kills_active_until_first_error_witness:
  "distinct [''job-3'', ''job-1'', ''job-2'', ''job-4'']
   \<and> set [''job-3'', ''job-1'', ''job-2'', ''job-4''] = dom sample_registry
   \<and> (\<exists>ac'. KillAll api_CurrentStatus (api_Kill_method sample_api_env)
                [''job-3'', ''job-1'', ''job-2'', ''job-4''] sample_registry
              = Returns (Some ''kill refused'', ac', [''job-1'', ''job-2''])
            \<and> ac' ''job-4'' = sample_registry ''job-4'')
   \<and> (\<exists>ac'. KillAll api_CurrentStatus
                (api_Kill_method (sample_api_env\<lparr>env_JobKill := (\<lambda>id. None)\<rparr>))
                [''job-3'', ''job-1'', ''job-2'', ''job-4''] sample_registry
              = Returns (None, ac', [''job-1'', ''job-2'', ''job-4'']))
   \<and> filter (registered_active api_CurrentStatus sample_registry)
         [''job-3'', ''job-1'', ''job-2'', ''job-4''] = [''job-1'', ''job-2''] @ [''job-4'']"
proof -
  have h1: "distinct [''job-3'', ''job-1'', ''job-2'', ''job-4'']" by simp
  have h2: "set [''job-3'', ''job-1'', ''job-2'', ''job-4''] = dom sample_registry"
    by (auto simp: sample_registry_def)
  have "\<exists>ac'. KillAll api_CurrentStatus (api_Kill_method sample_api_env)
                [''job-3'', ''job-1'', ''job-2'', ''job-4''] sample_registry
              = Returns (Some ''kill refused'', ac', [''job-1'', ''job-2''])"
  proof -
    have st: "api_Status sample_api_job = ''running''" by (simp add: sample_api_job_def)
    show ?thesis
      by (simp add: KillAll_def sample_registry_def sample_kill_1 sample_kill_2
            api_CurrentStatus_def st status_defs)
  qed
  then obtain ac' where h3: "KillAll api_CurrentStatus (api_Kill_method sample_api_env)
                [''job-3'', ''job-1'', ''job-2'', ''job-4''] sample_registry
              = Returns (Some ''kill refused'', ac', [''job-1'', ''job-2''])" by blast
  have f: "filter (registered_active api_CurrentStatus sample_registry)
         [''job-3'', ''job-1'', ''job-2'', ''job-4''] = [''job-1'', ''job-2''] @ [''job-4'']"
    by (simp add: registered_active_def sample_registry_def api_CurrentStatus_def
          sample_api_job_def status_defs)
  note t = KillAll_kills_active_until_first_error[OF h1 h2, of api_CurrentStatus]
  from t[of "api_Kill_method sample_api_env"] h3
  have u: "ac' ''job-4'' = sample_registry ''job-4''" by simp
  have ok: "\<forall>k j. sample_registry k = Some j \<longrightarrow>
              registered_active api_CurrentStatus sample_registry k \<longrightarrow>
              (\<exists>j'. api_Kill_method (sample_api_env\<lparr>env_JobKill := (\<lambda>id. None)\<rparr>) j
                       = Returns (None, j'))"
  proof (intro allI impI)
    fix k j
    assume a: "sample_registry k = Some j" and b: "registered_active api_CurrentStatus sample_registry k"
    from a b have s: "api_CurrentStatus j = ACCEPTED \<or> api_CurrentStatus j = RUNNING"
      by (simp add: registered_active_def)
    from sample_registry_jobs[OF a] have c: "api_ctx j \<noteq> NoContext" by simp
    show "\<exists>j'. api_Kill_method (sample_api_env\<lparr>env_JobKill := (\<lambda>id. None)\<rparr>) j = Returns (None, j')"
      by (rule api_Kill_method_success[OF _ _ c s]) (simp_all add: sample_api_env_def)
  qed
  with t[of "api_Kill_method (sample_api_env\<lparr>env_JobKill := (\<lambda>id. None)\<rparr>)"] f
  have n: "\<exists>ac'. KillAll api_CurrentStatus
                (api_Kill_method (sample_api_env\<lparr>env_JobKill := (\<lambda>id. None)\<rparr>))
                [''job-3'', ''job-1'', ''job-2'', ''job-4''] sample_registry
              = Returns (None, ac', [''job-1'', ''job-2'', ''job-4''])"
    by simp
  from h1 h2 h3 u n f show ?thesis by blast
qed

section \<open>The monitor loop of package \<open>jobs\<close>\<close>

text \<open>One turn of the loop on an answer that is not an error, for a job that \<open>Create\<close>
  has given its cancel function.\<close>

lemma Run_iteration_ok:
  "CtxCancel j \<Longrightarrow>
   Run_iteration (Poll_ok status logStream, now) oldStatus j =
     (let j1 = j\<lparr>ContainerLogs := [logStream]\<rparr>
      in if status = oldStatus then Returns (Next status j1)
         else if status = ''ACCEPTED'' then
           Returns (Next status (j1\<lparr>Status := ACCEPTED, UpdateTime := now\<rparr>))
         else if status = ''RUNNING'' then
           Returns (Next status (j1\<lparr>Status := RUNNING, UpdateTime := now\<rparr>))
         else if status = ''SUCCEEDED'' then
           Returns (Stop (j1\<lparr>Status := SUCCESSFUL, UpdateTime := now, Ctx := Cancelled\<rparr>))
         else if status = ''DISMISSED'' then
           Returns (Stop (j1\<lparr>Status := DISMISSED, UpdateTime := now, Ctx := Cancelled\<rparr>))
         else if status = ''FAILED'' then
           Returns (Stop (j1\<lparr>Status := FAILED, UpdateTime := now, Ctx := Cancelled\<rparr>))
         else Returns (Next status j1))"
  by (simp add: Run_iteration_def NewStatusUpdate_def call_CtxCancel_def Let_def)

text \<open>The switch of the loop on the status it is handed, whatever hands it over.\<close>

lemma Run_iteration_switch:
  assumes "CtxCancel j"
  shows "\<exists>st. Run_iteration (Poll_ok status logStream, now) oldStatus j = Returns st
           \<and> CurrentStatus (job_of st) =
               (if status = oldStatus then CurrentStatus j
                else if status = ''ACCEPTED'' then ACCEPTED
                else if status = ''RUNNING'' then RUNNING
                else if status = ''SUCCEEDED'' then SUCCESSFUL
                else if status = ''DISMISSED'' then DISMISSED
                else if status = ''FAILED'' then FAILED
                else CurrentStatus j)"
  using assms by (simp add: Run_iteration_ok Let_def CurrentStatus_def)

text \<open>
  With the adapter in front, a turn of the loop that starts in step gives the job the
  status that belongs to the provider status, and leaves the loop in step when it goes
  on.
\<close>

lemma Run_loop_append:
  "Run_loop (xs @ ys) oldStatus j =
     and_then (Run_loop xs oldStatus j)
       (\<lambda>st. case st of
               Next oldStatus' j' \<Rightarrow> Run_loop ys oldStatus' j'
             | Stop j' \<Rightarrow> Returns (Stop j'))"
proof (induction xs arbitrary: oldStatus j)
  case Nil
  show ?case by simp
next
  case (Cons x xs)
  show ?case
  proof (cases "Run_iteration x oldStatus j")
    case (Returns st)
    then show ?thesis using Cons.IH by (cases st) simp_all
  next
    case Panics
    then show ?thesis by simp
  next
    case Blocks
    then show ?thesis by simp
  qed
qed

lemma JobMonitor_status_cases:
  "JobMonitor_status s = ''ACCEPTED'' \<or> JobMonitor_status s = ''RUNNING''
   \<or> JobMonitor_status s = ''SUCCEEDED'' \<or> JobMonitor_status s = ''FAILED''
   \<or> JobMonitor_status s = []"
  by (simp add: JobMonitor_status_def)

lemma monitor_turn:
  assumes "CtxCancel j" and "monitor_in_step oldStatus j"
  shows "\<exists>st. Run_iteration (Poll_ok (JobMonitor_status providerStatus) logStream, now) oldStatus j
                 = Returns st
           \<and> CurrentStatus (job_of st) =
               (if providerStatus = ''SUBMITTED'' \<or> providerStatus = ''PENDING''
                   \<or> providerStatus = ''RUNNABLE'' \<or> providerStatus = ''STARTING'' then ACCEPTED
                else if providerStatus = ''RUNNING'' then RUNNING
                else if providerStatus = ''SUCCEEDED'' then SUCCESSFUL
                else if providerStatus = ''FAILED'' then FAILED
                else CurrentStatus j)
           \<and> (still_polling (providerStatus, logStream, now) \<longrightarrow>
                (\<exists>oldStatus' j'. st = Next oldStatus' j' \<and> CtxCancel j' \<and> AWSBatchID j' = AWSBatchID j
                    \<and> monitor_in_step oldStatus' j'))"
  using assms
  by (auto simp: Run_iteration_ok JobMonitor_status_def monitor_in_step_def CurrentStatus_def
        still_polling_def Let_def status_defs)

lemma monitor_keeps_polling:
  "CtxCancel j \<Longrightarrow> monitor_in_step oldStatus j \<Longrightarrow> list_all still_polling polls \<Longrightarrow>
   \<exists>oldStatus' j'. Run_loop (JobMonitor_answers polls) oldStatus j = Returns (Next oldStatus' j')
      \<and> CtxCancel j' \<and> monitor_in_step oldStatus' j'"
proof (induction polls arbitrary: oldStatus j)
  case Nil
  then show ?case by (simp add: JobMonitor_answers_def)
next
  case (Cons p polls)
  obtain providerStatus logStream now where p: "p = (providerStatus, logStream, now)"
    by (cases p) auto
  from Cons.prems(3) p have sp: "still_polling (providerStatus, logStream, now)"
    and rest: "list_all still_polling polls" by simp_all
  from monitor_turn[OF Cons.prems(1,2), of providerStatus logStream now] sp
  obtain oldStatus1 j1 where
    t: "Run_iteration (Poll_ok (JobMonitor_status providerStatus) logStream, now) oldStatus j
          = Returns (Next oldStatus1 j1)"
    and c: "CtxCancel j1" and m: "monitor_in_step oldStatus1 j1"
    by blast
  from Cons.IH[OF c m rest] obtain oldStatus' j' where
    "Run_loop (JobMonitor_answers polls) oldStatus1 j1 = Returns (Next oldStatus' j')"
    "CtxCancel j'" "monitor_in_step oldStatus' j'" by blast
  with t p show ?case by (simp add: JobMonitor_answers_def)
qed

text \<open>
  C2.  \<open>Run\<close> is started on a job that \<open>Create\<close> has returned, the batch controller
  is there, and the provider has so far reported neither \<open>SUCCEEDED\<close> nor \<open>FAILED\<close>,
  so that the loop is still polling.  Then whatever provider status the next poll
  observes, the job status after that poll is accepted for \<open>SUBMITTED\<close>, \<open>PENDING\<close>,
  \<open>RUNNABLE\<close> and \<open>STARTING\<close>, running for \<open>RUNNING\<close>, successful for
  \<open>SUCCEEDED\<close>, failed for \<open>FAILED\<close>, and for any other provider status what it was
  before the poll.
\<close>

theorem Run_provider_status_mapping:
  assumes "CtxCancel j" and "AWSBatchID j \<noteq> []" and "ext_NewAWSBatchController env = None"
    and "list_all still_polling before"
  shows "\<exists>oldStatus j0 st.
           Run (env\<lparr>ext_JobMonitor := JobMonitor_answers before\<rparr>) j = Returns (Next oldStatus j0)
         \<and> Run (env\<lparr>ext_JobMonitor :=
                      JobMonitor_answers (before @ [(providerStatus, logStream, now)])\<rparr>) j
             = Returns st
         \<and> CurrentStatus (job_of st) =
             (if providerStatus = ''SUBMITTED'' \<or> providerStatus = ''PENDING''
                 \<or> providerStatus = ''RUNNABLE'' \<or> providerStatus = ''STARTING'' then ACCEPTED
              else if providerStatus = ''RUNNING'' then RUNNING
              else if providerStatus = ''SUCCEEDED'' then SUCCESSFUL
              else if providerStatus = ''FAILED'' then FAILED
              else CurrentStatus j0)"
proof -
  have m0: "monitor_in_step [] j" by (simp add: monitor_in_step_def)
  from monitor_keeps_polling[OF assms(1) m0 assms(4)] obtain oldStatus j0 where
    l: "Run_loop (JobMonitor_answers before) [] j = Returns (Next oldStatus j0)"
    and c: "CtxCancel j0" and m: "monitor_in_step oldStatus j0" by blast
  from monitor_turn[OF c m, of providerStatus logStream now] obtain st where
    t: "Run_iteration (Poll_ok (JobMonitor_status providerStatus) logStream, now) oldStatus j0
          = Returns st"
    and s: "CurrentStatus (job_of st) =
             (if providerStatus = ''SUBMITTED'' \<or> providerStatus = ''PENDING''
                 \<or> providerStatus = ''RUNNABLE'' \<or> providerStatus = ''STARTING'' then ACCEPTED
              else if providerStatus = ''RUNNING'' then RUNNING
              else if providerStatus = ''SUCCEEDED'' then SUCCESSFUL
              else if providerStatus = ''FAILED'' then FAILED
              else CurrentStatus j0)" by blast
  have a: "JobMonitor_answers (before @ [(providerStatus, logStream, now)])
            = JobMonitor_answers before
              @ [(Poll_ok (JobMonitor_status providerStatus) logStream, now)]"
    by (simp add: JobMonitor_answers_def)
  have r1: "Run (env\<lparr>ext_JobMonitor := JobMonitor_answers before\<rparr>) j = Returns (Next oldStatus j0)"
    using assms(2,3) l by (simp add: Run_def)
  have r2: "Run (env\<lparr>ext_JobMonitor :=
                      JobMonitor_answers (before @ [(providerStatus, logStream, now)])\<rparr>) j
             = Returns st"
    using assms(2,3) l t by (cases st) (simp_all add: Run_def a Run_loop_append)
  from r1 r2 s show ?thesis by blast
qed

text \<open>The provider reports \<open>SUBMITTED\<close>, \<open>RUNNING\<close> and then \<open>STARTING\<close>: the job
  ends accepted.\<close>

theorem Run_provider_status_mapping_witness:
  "CtxCancel sample_job \<and> AWSBatchID sample_job \<noteq> []
   \<and> ext_NewAWSBatchController sample_batch_env = None
   \<and> list_all still_polling [(''SUBMITTED'', ''stream'', 10), (''RUNNING'', ''stream'', 20)]
   \<and> (\<exists>st. Run (sample_batch_env\<lparr>ext_JobMonitor :=
                     JobMonitor_answers ([(''SUBMITTED'', ''stream'', 10), (''RUNNING'', ''stream'', 20)]
                                         @ [(''STARTING'', ''stream'', 30)])\<rparr>) sample_job
             = Returns st
          \<and> CurrentStatus (job_of st) = ''accepted'')
   \<and> Run (sample_batch_env\<lparr>ext_JobMonitor :=
               JobMonitor_answers ([(''SUBMITTED'', ''stream'', 10), (''RUNNING'', ''stream'', 20)]
                                   @ [(''STARTING'', ''stream'', 30)])\<rparr>) sample_job
       = Returns (Next ''ACCEPTED''
           (sample_job\<lparr>ContainerLogs := [''stream''], Status := ''accepted'', UpdateTime := 30\<rparr>))"
proof -
  have h1: "CtxCancel sample_job" and h2: "AWSBatchID sample_job \<noteq> []"
    by (simp_all add: sample_job_def)
  have h3: "ext_NewAWSBatchController sample_batch_env = None" by (simp add: sample_batch_env_def)
  have h4: "list_all still_polling [(''SUBMITTED'', ''stream'', 10), (''RUNNING'', ''stream'', 20)]"
    by (simp add: still_polling_def)
  from Run_provider_status_mapping[OF h1 h2 h3 h4, of "''STARTING''" "''stream''" 30]
  have e: "\<exists>st. Run (sample_batch_env\<lparr>ext_JobMonitor :=
                     JobMonitor_answers ([(''SUBMITTED'', ''stream'', 10), (''RUNNING'', ''stream'', 20)]
                                         @ [(''STARTING'', ''stream'', 30)])\<rparr>) sample_job
             = Returns st
          \<and> CurrentStatus (job_of st) = ''accepted''"
    by (auto simp: status_defs)
  have r: "Run (sample_batch_env\<lparr>ext_JobMonitor :=
               JobMonitor_answers ([(''SUBMITTED'', ''stream'', 10), (''RUNNING'', ''stream'', 20)]
                                   @ [(''STARTING'', ''stream'', 30)])\<rparr>) sample_job
       = Returns (Next ''ACCEPTED''
           (sample_job\<lparr>ContainerLogs := [''stream''], Status := ''accepted'', UpdateTime := 30\<rparr>))"
    by (simp add: Run_def sample_batch_env_def JobMonitor_answers_def JobMonitor_status_def
          sample_job_def Run_iteration_ok status_defs Let_def)
  from h1 h2 h3 h4 e r show ?thesis by blast
qed

text \<open>
  C3, as the code has it.  When \<open>JobMonitor\<close> returns an error the monitor appends the
  message of the error to the api log of the job, sets the status to failed, cancels the
  context and returns: the answers that the batch service would give later are not asked
  for.  A pull of the logs, failed or not, leaves the status and the last update of the
  job as they are.
\<close>

theorem Run_loop_observe_error_fails_job:
  assumes "CtxCancel j"
  shows "Run_loop ((Poll_err e, now) # ticks) oldStatus j =
           Returns (Stop (j\<lparr>APILogs := APILogs j @ [e], Status := FAILED, UpdateTime := now,
                            Ctx := Cancelled\<rparr>))
       \<and> api_CurrentStatus (fst (snd (fetchCloudWatchLogs env (aj, calls)))) = api_CurrentStatus aj
       \<and> api_LastUpdate (fst (snd (fetchCloudWatchLogs env (aj, calls)))) = api_LastUpdate aj"
  using assms fetchCloudWatchLogs_keeps_status[of env aj calls]
  by (simp add: Run_iteration_def HandleError_def NewStatusUpdate_def call_CtxCancel_def
        api_CurrentStatus_def api_LastUpdate_def)

theorem Run_loop_observe_error_fails_job_witness:
  "CtxCancel sample_job
   \<and> Run_loop [(Poll_err ''timeout'', 10), (Poll_ok ''RUNNING'' ''stream'', 20)] ''ACCEPTED'' sample_job
       = Returns (Stop (sample_job\<lparr>APILogs := [''timeout''], Status := ''failed'', UpdateTime := 10,
                                   Ctx := Cancelled\<rparr>))
   \<and> api_CurrentStatus
         (fst (snd (fetchCloudWatchLogs (sample_api_env\<lparr>env_NewSession := Some ''no session''\<rparr>)
                      (sample_api_job, []))))
       = ''running''"
proof -
  have h: "CtxCancel sample_job" by (simp add: sample_job_def)
  have s: "api_CurrentStatus sample_api_job = ''running''"
    by (simp add: api_CurrentStatus_def sample_api_job_def)
  from Run_loop_observe_error_fails_job[OF h, of "''timeout''" 10
      "[(Poll_ok ''RUNNING'' ''stream'', 20)]" "''ACCEPTED''"
      "sample_api_env\<lparr>env_NewSession := Some ''no session''\<rparr>" sample_api_job "[]"] h s
  show ?thesis by (simp add: sample_job_def status_defs)
qed

text \<open>
  The claim as the specification words it fails: one error of \<open>JobMonitor\<close> on an
  accepted job ends \<open>Run\<close> with the job failed, although the next answer would have been
  \<open>RUNNING\<close>.
\<close>

theorem Run_observe_error_counterexample:
  "Run (sample_batch_env\<lparr>ext_JobMonitor := [(Poll_err ''timeout'', 10),
                                             (Poll_ok ''RUNNING'' ''stream'', 20)]\<rparr>) sample_job
     = Returns (Stop (sample_job\<lparr>APILogs := [''timeout''], Status := ''failed'', UpdateTime := 10,
                                 Ctx := Cancelled\<rparr>))
   \<and> CurrentStatus (sample_job\<lparr>APILogs := [''timeout''], Status := ''failed'', UpdateTime := 10,
                                Ctx := Cancelled\<rparr>) = FAILED"
  by (simp add: Run_def sample_batch_env_def sample_job_def Run_iteration_def HandleError_def
        NewStatusUpdate_def call_CtxCancel_def CurrentStatus_def status_defs)

text \<open>
  C4.  After a \<open>Kill\<close> that returned nil, no later turn of the monitor loop takes the job
  back to running or successful.  In package \<open>jobs\<close> it does: the monitor has observed
  \<open>ACCEPTED\<close> and sleeps; \<open>Kill\<close> succeeds and the job is dismissed; the monitor
  wakes, observes \<open>RUNNING\<close>, and the job is running again; had it observed
  \<open>SUCCEEDED\<close>, the job would be successful.
\<close>

theorem jobs_Run_after_Kill_back_to_running:
  "Run_loop [(Poll_ok ''ACCEPTED'' ''stream'', 10)] [] sample_job
     = Returns (Next ''ACCEPTED'' (sample_job\<lparr>ContainerLogs := [''stream''], UpdateTime := 10\<rparr>))
   \<and> Kill sample_batch_env (sample_job\<lparr>ContainerLogs := [''stream''], UpdateTime := 10\<rparr>)
     = Returns (None, sample_job\<lparr>ContainerLogs := [''stream''], Status := ''dismissed'',
                                   UpdateTime := 9, Ctx := Cancelled\<rparr>)
   \<and> Run_loop [(Poll_ok ''RUNNING'' ''stream'', 20)] ''ACCEPTED''
        (sample_job\<lparr>ContainerLogs := [''stream''], Status := ''dismissed'', UpdateTime := 9,
                    Ctx := Cancelled\<rparr>)
     = Returns (Next ''RUNNING''
         (sample_job\<lparr>ContainerLogs := [''stream''], Status := ''running'', UpdateTime := 20,
                     Ctx := Cancelled\<rparr>))
   \<and> Run_loop [(Poll_ok ''SUCCEEDED'' ''stream'', 20)] ''ACCEPTED''
        (sample_job\<lparr>ContainerLogs := [''stream''], Status := ''dismissed'', UpdateTime := 9,
                    Ctx := Cancelled\<rparr>)
     = Returns (Stop
         (sample_job\<lparr>ContainerLogs := [''stream''], Status := ''successful'', UpdateTime := 20,
                     Ctx := Cancelled\<rparr>))"
  by (simp add: Kill_def sample_batch_env_def sample_job_def Run_iteration_ok call_CtxCancel_def
        NewStatusUpdate_def status_defs Let_def)

section \<open>\<open>Execution\<close>\<close>

text \<open>
  C8.  When \<open>Execution\<close> builds a job, the inputs of the request with the fresh job
  id stored under \<open>jobID\<close> are what the JSON encoder was given, and the command of
  the job is the encoder's text alone when the entry point of the process is empty and
  the entry point followed by that text when it is not.
\<close>

theorem Execution_build_command_vector:
  assumes "Execution_build env req = Returns (Inr (p, jobID, j))"
  shows "\<exists>inputs jsonParams.
           bound_body req = Inr (Some inputs)
         \<and> jobID = ext_uuid_New env
         \<and> ext_json_Marshal env (inputs(''jobID'' \<mapsto> String_value jobID)) = Inr jsonParams
         \<and> ((\<exists>b. j = Batch b
                  \<and> Cmd b = Some (if Runtime_EntryPoint p = [] then [jsonParams]
                                    else [Runtime_EntryPoint p, jsonParams]))
            \<or> (\<exists>fields. j = Docker (ext_new_DockerJob env fields)
                  \<and> Docker_Cmd fields = Some (if Runtime_EntryPoint p = [] then [jsonParams]
                                                 else [Runtime_EntryPoint p, jsonParams])))"
  using assms
  by (auto simp: Execution_build_def command_vector_def Let_def
           split: if_splits sum.splits option.splits list.splits)

theorem Execution_build_command_vector_witness:
  "Execution_build sample_handler_env sample_request
     = Returns (Inr (sample_process, ''job-1'',
         Batch \<lparr>Ctx = Live, CtxCancel = False, UUID = ''job-1'', AWSBatchID = [],
            ProcessName = ''echo'', ImgTag = ''img:1'',
            Cmd = Some [''run.sh'', ''{jobID:job-1}''], UpdateTime = 0,
            Status = [], APILogs = [], ContainerLogs = [], JobDef = ''def'',
            JobQueue = ''queue'', JobName = ''name'', EnvVars = Map.empty,
            BatchContext = False\<rparr>))
   \<and> (\<exists>inputs jsonParams.
           bound_body sample_request = Inr (Some inputs)
         \<and> ext_json_Marshal sample_handler_env (inputs(''jobID'' \<mapsto> String_value ''job-1''))
             = Inr jsonParams
         \<and> jsonParams = ''{jobID:job-1}'')"
proof -
  have h: "Execution_build sample_handler_env sample_request
     = Returns (Inr (sample_process, ''job-1'',
         Batch \<lparr>Ctx = Live, CtxCancel = False, UUID = ''job-1'', AWSBatchID = [],
            ProcessName = ''echo'', ImgTag = ''img:1'',
            Cmd = Some [''run.sh'', ''{jobID:job-1}''], UpdateTime = 0,
            Status = [], APILogs = [], ContainerLogs = [], JobDef = ''def'',
            JobQueue = ''queue'', JobName = ''name'', EnvVars = Map.empty,
            BatchContext = False\<rparr>))"
    by (simp add: Execution_build_def sample_handler_env_def sample_request_def sample_process_def
          command_vector_def zero_time_def Let_def)
  from Execution_build_command_vector[OF h] obtain inputs jsonParams where
    "bound_body sample_request = Inr (Some inputs)"
    "ext_json_Marshal sample_handler_env (inputs(''jobID'' \<mapsto> String_value ''job-1'')) = Inr jsonParams"
    "Some [''run.sh'', ''{jobID:job-1}''] = Some (if Runtime_EntryPoint sample_process = [] then [jsonParams]
                                    else [Runtime_EntryPoint sample_process, jsonParams])"
    by auto
  moreover from this(3) have "jsonParams = ''{jobID:job-1}''"
    by (simp add: sample_process_def)
  ultimately show ?thesis using h by blast
qed

lemma Create_failure:
  assumes "Create benv b = Returns (Some e, b')"
  shows "b' = b\<lparr>CtxCancel := True, APILogs := APILogs b @ [e], Status := FAILED,
                  UpdateTime := ext_Now benv, Ctx := Cancelled\<rparr>"
  using assms
  by (auto simp: Create_def HandleError_def NewStatusUpdate_def call_CtxCancel_def Let_def
           split: if_splits option.splits sum.splits)

lemma HandleError_states_last:
  "HandleError now m j = Returns j' \<Longrightarrow> last (HandleError_states now m j) = j'"
  by (auto simp: HandleError_def HandleError_states_def call_CtxCancel_def Let_def split: if_splits)

lemma HandleError_states_status:
  "list_all (\<lambda>s. Status s = Status j \<or> Status s = FAILED) (HandleError_states now m j)"
  by (simp add: HandleError_states_def NewStatusUpdate_def call_CtxCancel_def Let_def)

lemma HandleError_states_nonempty: "HandleError_states now m j \<noteq> []"
  by (simp add: HandleError_states_def Let_def)

lemma Create_states_last:
  "Create env j = Returns (r, j') \<Longrightarrow> last (Create_states env j) = j'"
  by (auto simp: Create_def Create_states_def Let_def and_then_Returns HandleError_states_last
        HandleError_states_nonempty
      split: if_splits option.splits sum.splits)

lemma Create_failure_states:
  assumes "Create env j = Returns (Some e, j')"
  shows "list_all (\<lambda>s. Status s = Status j \<or> Status s = FAILED) (Create_states env j)"
  using assms HandleError_states_status[of "j\<lparr>CtxCancel := True\<rparr>"]
  by (auto simp: Create_def Create_states_def Let_def and_then_Returns
      split: if_splits option.splits sum.splits)

lemma Execution_build_Batch_Status:
  "Execution_build env req = Returns (Inr (p, jobID, Batch b)) \<Longrightarrow> Status b = []"
  by (auto simp: Execution_build_def Let_def split: if_splits sum.splits option.splits list.splits)

text \<open>
  C6, as the code has it.  When \<open>Create\<close> fails on the job that \<open>Execution\<close> has built,
  the response is 500 with the submission error, and the cache is as \<open>JobsCache.Add\<close>
  left it: nothing takes the job out again, and the pointer in the cache leads to the job
  as \<open>Create\<close> left it.  A batch job never enters accepted on the way: it is built
  with the empty status, every state that \<open>Create\<close> takes it through has that status
  or failed, and the last of them, which is the job as built but for the error in its api
  log, the status failed, the time of that update and the cancelled context, is what
  \<open>Create\<close> leaves.
\<close>

theorem Execution_Create_failure_keeps_job_cached:
  assumes "Execution_build env req = Returns (Inr (p, jobID, j))"
    and "job_Create env j = Returns (Some e, j')"
  shows "Execution env ref req srv =
           Returns (JSON StatusInternalServerError (Text (''submission errorr '' @ e)),
                    srv\<lparr>heap := (heap srv)(ref \<mapsto> j'),
                        Jobs := ext_JobsCache_Add env ((heap srv)(ref \<mapsto> j)) ref (Jobs srv)\<rparr>,
                    None)
       \<and> (\<forall>b. j = Batch b \<longrightarrow>
             j' = Batch (b\<lparr>CtxCancel := True, APILogs := APILogs b @ [e], Status := FAILED,
                             UpdateTime := ext_Now (ext_batch env), Ctx := Cancelled\<rparr>)
           \<and> CurrentStatus b = []
           \<and> list_all (\<lambda>s. CurrentStatus s \<noteq> ACCEPTED) (b # Create_states (ext_batch env) b)
           \<and> list_all (\<lambda>s. CurrentStatus s = CurrentStatus b \<or> CurrentStatus s = FAILED)
                 (Create_states (ext_batch env) b)
           \<and> j' = Batch (last (Create_states (ext_batch env) b)))"
proof -
  have 1: "Execution env ref req srv =
           Returns (JSON StatusInternalServerError (Text (''submission errorr '' @ e)),
                    srv\<lparr>heap := (heap srv)(ref \<mapsto> j'),
                        Jobs := ext_JobsCache_Add env ((heap srv)(ref \<mapsto> j)) ref (Jobs srv)\<rparr>,
                    None)"
    using assms by (simp add: Execution_def Execution_submit_def Let_def)
  have 2: "\<forall>b. j = Batch b \<longrightarrow>
             j' = Batch (b\<lparr>CtxCancel := True, APILogs := APILogs b @ [e], Status := FAILED,
                             UpdateTime := ext_Now (ext_batch env), Ctx := Cancelled\<rparr>)
           \<and> CurrentStatus b = []
           \<and> list_all (\<lambda>s. CurrentStatus s \<noteq> ACCEPTED) (b # Create_states (ext_batch env) b)
           \<and> list_all (\<lambda>s. CurrentStatus s = CurrentStatus b \<or> CurrentStatus s = FAILED)
                 (Create_states (ext_batch env) b)
           \<and> j' = Batch (last (Create_states (ext_batch env) b))"
  proof (intro allI impI)
    fix b
    assume jb: "j = Batch b"
    from assms(2) jb obtain b' where c: "Create (ext_batch env) b = Returns (Some e, b')"
      and j': "j' = Batch b'"
      by (auto simp: and_then_Returns)
    have f: "j' = Batch (b\<lparr>CtxCancel := True, APILogs := APILogs b @ [e], Status := FAILED,
                             UpdateTime := ext_Now (ext_batch env), Ctx := Cancelled\<rparr>)"
      using Create_failure[OF c] j' by simp
    have s0: "CurrentStatus b = []"
      using Execution_build_Batch_Status[of env req p jobID b] assms(1) jb
      by (simp add: CurrentStatus_def)
    have st: "list_all (\<lambda>s. CurrentStatus s = CurrentStatus b \<or> CurrentStatus s = FAILED)
                 (Create_states (ext_batch env) b)"
      using Create_failure_states[OF c] by (simp add: CurrentStatus_def)
    have na: "list_all (\<lambda>s. CurrentStatus s \<noteq> ACCEPTED) (b # Create_states (ext_batch env) b)"
    proof -
      have "list_all (\<lambda>s. CurrentStatus s \<noteq> ACCEPTED) (Create_states (ext_batch env) b)"
        using st s0 by (auto simp: list_all_iff status_defs)
      with s0 show ?thesis by (simp add: status_defs)
    qed
    have l: "j' = Batch (last (Create_states (ext_batch env) b))"
      using Create_states_last[OF c] j' by simp
    from f s0 na st l
    show "j' = Batch (b\<lparr>CtxCancel := True, APILogs := APILogs b @ [e], Status := FAILED,
                             UpdateTime := ext_Now (ext_batch env), Ctx := Cancelled\<rparr>)
           \<and> CurrentStatus b = []
           \<and> list_all (\<lambda>s. CurrentStatus s \<noteq> ACCEPTED) (b # Create_states (ext_batch env) b)
           \<and> list_all (\<lambda>s. CurrentStatus s = CurrentStatus b \<or> CurrentStatus s = FAILED)
                 (Create_states (ext_batch env) b)
           \<and> j' = Batch (last (Create_states (ext_batch env) b))"
      by blast
  qed
  from 1 2 show ?thesis by blast
qed

lemma sample_build:
  "Execution_build sample_handler_env sample_request
     = Returns (Inr (sample_process, ''job-1'', Batch sample_built_job))"
  by (simp add: Execution_build_def sample_handler_env_def sample_request_def sample_process_def
        sample_built_job_def command_vector_def zero_time_def Let_def)

lemma sample_Create:
  "job_Create sample_handler_env (Batch sample_built_job) = Returns (Some ''denied'', Batch sample_failed_job)"
  by (simp add: Create_def HandleError_def NewStatusUpdate_def call_CtxCancel_def
        sample_handler_env_def sample_batch_env_def sample_built_job_def sample_failed_job_def
        status_defs Let_def)

theorem Execution_Create_failure_keeps_job_cached_witness:
  "Execution_build sample_handler_env sample_request
     = Returns (Inr (sample_process, ''job-1'', Batch sample_built_job))
   \<and> job_Create sample_handler_env (Batch sample_built_job)
     = Returns (Some ''denied'', Batch sample_failed_job)
   \<and> Execution sample_handler_env 0 sample_request sample_server
     = Returns (JSON 500 (Text ''submission errorr denied''),
                \<lparr>heap = [0 \<mapsto> Batch sample_failed_job], Jobs = [0]\<rparr>, None)
   \<and> list_all (\<lambda>s. CurrentStatus s \<noteq> ACCEPTED)
        (sample_built_job # Create_states sample_batch_env sample_built_job)
   \<and> last (Create_states sample_batch_env sample_built_job) = sample_failed_job
   \<and> map CurrentStatus (Create_states sample_batch_env sample_built_job)
     = [[], [], ''failed'', ''failed'']"
proof -
  note t = Execution_Create_failure_keeps_job_cached[OF sample_build sample_Create, of 0 sample_server]
  have b: "ext_batch sample_handler_env = sample_batch_env" by (simp add: sample_handler_env_def)
  from t have 1: "Execution sample_handler_env 0 sample_request sample_server
     = Returns (JSON 500 (Text ''submission errorr denied''),
                \<lparr>heap = [0 \<mapsto> Batch sample_failed_job], Jobs = [0]\<rparr>, None)"
    by (simp add: sample_server_def sample_handler_env_def JobsCache_Add_insert_def http_defs)
  from t b have 2: "list_all (\<lambda>s. CurrentStatus s \<noteq> ACCEPTED)
        (sample_built_job # Create_states sample_batch_env sample_built_job)"
    and 3: "last (Create_states sample_batch_env sample_built_job) = sample_failed_job"
    by (simp_all add: status_defs)
  have 4: "map CurrentStatus (Create_states sample_batch_env sample_built_job)
     = [[], [], ''failed'', ''failed'']"
    by (simp add: Create_states_def HandleError_states_def NewStatusUpdate_def call_CtxCancel_def
          CurrentStatus_def sample_batch_env_def sample_built_job_def status_defs Let_def)
  from sample_build sample_Create 1 2 3 4 show ?thesis by blast
qed

text \<open>
  The claim as the specification words it fails in its last part: after the failed
  submission the cache still holds the job, in status failed, and the results handler
  serves it.
\<close>

theorem Execution_no_rollback_counterexample:
  "Execution sample_handler_env 0 sample_request sample_server
     = Returns (JSON 500 (Text ''submission errorr denied''),
                \<lparr>heap = [0 \<mapsto> Batch sample_failed_job], Jobs = [0]\<rparr>, None)
   \<and> cached \<lparr>heap = [0 \<mapsto> Batch sample_failed_job], Jobs = [0]\<rparr>
     = [Batch sample_failed_job :: unit job]
   \<and> CurrentStatus sample_failed_job = FAILED
   \<and> JobResultsHandler sample_handler_env
        \<lparr>heap = [0 \<mapsto> Batch sample_failed_job], Jobs = [0]\<rparr> ''job-1''
     = JSON 200 (Object [(''type'', S ''process''), (''jobID'', S ''job-1''),
                         (''status'', S ''failed''), (''detail'', Logs_value [''denied'']),
                         (''updated'', T 9)])"
proof -
  have 1: "Execution sample_handler_env 0 sample_request sample_server
     = Returns (JSON 500 (Text ''submission errorr denied''),
                \<lparr>heap = [0 \<mapsto> Batch sample_failed_job], Jobs = [0]\<rparr>, None)"
  proof -
    have add: "ext_JobsCache_Add sample_handler_env = JobsCache_Add_insert"
      by (simp add: sample_handler_env_def)
    show ?thesis
      by (simp add: Execution_def Execution_submit_def sample_build sample_Create add
            sample_server_def JobsCache_Add_insert_def http_defs Let_def
          del: job_Create.simps)
  qed
  have 2: "cached \<lparr>heap = [0 \<mapsto> Batch sample_failed_job], Jobs = [0]\<rparr>
     = [Batch sample_failed_job :: unit job]"
    by (simp add: cached_def)
  have 3: "CurrentStatus sample_failed_job = FAILED"
    by (simp add: CurrentStatus_def sample_failed_job_def status_defs)
  have 4: "JobResultsHandler sample_handler_env
        \<lparr>heap = [0 \<mapsto> Batch sample_failed_job], Jobs = [0]\<rparr> ''job-1''
     = JSON 200 (Object [(''type'', S ''process''), (''jobID'', S ''job-1''),
                         (''status'', S ''failed''), (''detail'', Logs_value [''denied'']),
                         (''updated'', T 9)])"
    unfolding JobResultsHandler_def 2
    by (simp add: sample_handler_env_def sample_failed_job_def JobID_def CurrentStatus_def
          LastUpdate_def status_defs http_defs)
  from 1 2 3 4 show ?thesis by blast
qed

section \<open>\<open>JobResultsHandler\<close>\<close>

lemma JobResultsHandler_range_find:
  "(case find (\<lambda>j. job_JobID env j = jobID) js of
      None \<Rightarrow> status_code (JobResultsHandler_range env js jobID) = StatusNotFound
    | Some j \<Rightarrow>
        if job_CurrentStatus env j = SUCCESSFUL then
          status_code (JobResultsHandler_range env js jobID) = StatusOK
          \<and> entry ''outputs'' (JobResultsHandler_range env js jobID)
              = Some (Outputs_value (Some (ext_JobOutputs env j)))
        else if job_CurrentStatus env j = FAILED \<or> job_CurrentStatus env j = DISMISSED then
          status_code (JobResultsHandler_range env js jobID) = StatusOK
          \<and> entry ''detail'' (JobResultsHandler_range env js jobID)
              = Some (Logs_value (ext_JobLogs env j))
        else
          status_code (JobResultsHandler_range env js jobID) = StatusNotFound
          \<and> entry ''detail'' (JobResultsHandler_range env js jobID) = Some (S ''results not ready''))"
proof (induction js)
  case Nil
  show ?case by simp
next
  case (Cons j js)
  show ?case
  proof (cases "job_JobID env j = jobID")
    case True
    then show ?thesis by simp
  next
    case False
    then have "find (\<lambda>j. job_JobID env j = jobID) (j # js) = find (\<lambda>j. job_JobID env j = jobID) js"
      and "JobResultsHandler_range env (j # js) jobID = JobResultsHandler_range env js jobID"
      by simp_all
    with Cons.IH show ?thesis by (simp only:)
  qed
qed

text \<open>
  C7.  For the first job of the cache that has the job id asked for, the results handler
  answers 200 with the outputs of the job when its status is successful, 200 with the logs
  of the job under \<open>detail\<close> when its status is failed or dismissed, and 404 with the
  detail \<open>results not ready\<close> in any other status.  When no job of the cache has the
  id, it answers 404.
\<close>

theorem JobResultsHandler_by_status:
  "(case find (\<lambda>j. job_JobID env j = jobID) (cached srv) of
      None \<Rightarrow> status_code (JobResultsHandler env srv jobID) = StatusNotFound
    | Some j \<Rightarrow>
        if job_CurrentStatus env j = SUCCESSFUL then
          status_code (JobResultsHandler env srv jobID) = StatusOK
          \<and> entry ''outputs'' (JobResultsHandler env srv jobID)
              = Some (Outputs_value (Some (ext_JobOutputs env j)))
        else if job_CurrentStatus env j = FAILED \<or> job_CurrentStatus env j = DISMISSED then
          status_code (JobResultsHandler env srv jobID) = StatusOK
          \<and> entry ''detail'' (JobResultsHandler env srv jobID)
              = Some (Logs_value (ext_JobLogs env j))
        else
          status_code (JobResultsHandler env srv jobID) = StatusNotFound
          \<and> entry ''detail'' (JobResultsHandler env srv jobID) = Some (S ''results not ready''))"
  unfolding JobResultsHandler_def by (rule JobResultsHandler_range_find)

end
